theory Spec2Isabelle
  imports
    Main
    "HOL-Library.Sublist"
    "HOL-Library.Char_ord"
    "HOL-Library.List_Lexorder"
    "HOL-Library.Multiset"
begin

section \<open>The declaration graph (adlast)\<close>

text \<open>
  The SQL schema generator of hx-adl (\<^verbatim>\<open>gen-sqlschema.ts\<close>) works on the ADL abstract
  syntax. A scoped name is a module name and a local name; a type expression is a type
  reference applied to a list of parameters. Several of the source's interfaces have
  fields of the same name (\<^verbatim>\<open>name\<close>, \<^verbatim>\<open>moduleName\<close>, \<^verbatim>\<open>annotations\<close>); here a field
  carries a prefix for its interface, and the declaration kinds \<^verbatim>\<open>struct_\<close>, \<^verbatim>\<open>union_\<close>,
  \<^verbatim>\<open>type_\<close> and \<^verbatim>\<open>newtype_\<close> are the constructors \<open>DStruct\<close>, \<open>DUnion\<close>, \<open>DType\<close> and
  \<open>DNewtype\<close>.
\<close>

record ScopedName =
  sn_moduleName :: string
  sn_name :: string

definition scopedName :: "string \<Rightarrow> string \<Rightarrow> ScopedName" where
  "scopedName m n = \<lparr>sn_moduleName = m, sn_name = n\<rparr>"

definition scopedNamesEqual :: "ScopedName \<Rightarrow> ScopedName \<Rightarrow> bool" where
  "scopedNamesEqual a b = (sn_moduleName a = sn_moduleName b \<and> sn_name a = sn_name b)"

datatype TypeRef = Primitive string | TypeParam string | Reference ScopedName

datatype TypeExpr = TypeExpr (typeRef: TypeRef) (parameters: "TypeExpr list")

text \<open>Annotation values are JSON values.\<close>

datatype Json =
    JNull
  | JBool bool
  | JNumber int
  | JString string
  | JArray "Json list"
  | JObject "(string \<times> Json) list"

type_synonym Annotations = "(ScopedName \<times> Json) list"

record Field =
  f_name :: string
  f_typeExpr :: TypeExpr
  f_annotations :: Annotations

text \<open>
  The four kinds of declaration, each with its type parameters; a struct and a union have
  fields, a type alias (the kind \<^verbatim>\<open>type_\<close>) and a newtype have an underlying type
  expression.
\<close>

datatype DeclType =
    DStruct "string list" "Field list"
  | DUnion "string list" "Field list"
  | DType "string list" TypeExpr
  | DNewtype "string list" TypeExpr

record Decl =
  d_name :: string
  d_type :: DeclType
  d_annotations :: Annotations

record ScopedDecl =
  sd_moduleName :: string
  sd_decl :: Decl

record Module =
  m_name :: string
  m_decls :: "Decl list"

text \<open>
  The resolver finds the declaration of a scoped name; for a name that is not declared it
  throws, which is the value \<open>None\<close> here.
\<close>

type_synonym DeclResolver = "ScopedName \<Rightarrow> ScopedDecl option"

section \<open>Failure and divergence\<close>

text \<open>
  What the generator can throw: a property read on \<open>undefined\<close>, a reference the
  resolver does not know, a type expression outside the decoder's shapes, and an
  annotation value that does not have the type the source declares for it. The last one
  is not thrown by the generator but by the JavaScript engine under it: the \<open>RangeError\<close>
  of a call for which the call stack has no room left.
\<close>

datatype error =
    TypeError
  | UnresolvedReference ScopedName
  | UnexpectedTypeExpr
  | IllTypedAnnotation
  | RangeError

text \<open>
  A computation either does not return (\<open>None\<close>), throws (\<open>Some (Inl e)\<close>) or returns a
  value (\<open>Some (Inr x)\<close>).
\<close>

type_synonym 'a result = "(error + 'a) option"

definition ok :: "'a \<Rightarrow> 'a result" where
  "ok x = Some (Inr x)"

definition throw :: "error \<Rightarrow> 'a result" where
  "throw e = Some (Inl e)"

definition rbind :: "'a result \<Rightarrow> ('a \<Rightarrow> 'b result) \<Rightarrow> 'b result" where
  "rbind m f = (case m of None \<Rightarrow> None | Some (Inl e) \<Rightarrow> Some (Inl e) | Some (Inr x) \<Rightarrow> f x)"

definition lift :: "error + 'a \<Rightarrow> 'a result" where
  "lift v = Some v"

section \<open>The helpers of util.ts and of the ADL runtime\<close>

datatype DecodedTypeExpr =
    DPrimitive string
  | DNullable DecodedTypeExpr
  | DReference ScopedName "DecodedTypeExpr list"

fun kind :: "DecodedTypeExpr \<Rightarrow> string" where
  "kind (DPrimitive p) = p"
| "kind (DNullable _) = ''Nullable''"
| "kind (DReference _ _) = ''Reference''"

text \<open>
  Modelled from the spec: \<^verbatim>\<open>decodeTypeExpr\<close> of util.ts is not among the sources. The
  decoder classifies a raw type expression as a primitive of some kind, as the dedicated
  nullable wrapper around its decoded first parameter, or as a reference to a scoped name
  with its decoded parameters. The caller \<^verbatim>\<open>getColumnType\<close> tests the kind \<^verbatim>\<open>Nullable\<close> and
  the kind \<^verbatim>\<open>Reference\<close> with the name \<^verbatim>\<open>sys.types.Maybe\<close> separately, so the Maybe
  wrapper decodes as a reference. The nullable wrapper without a parameter reads a property
  of \<open>undefined\<close>; a type variable is none of the spec's shapes.
\<close>

fun decodeTypeExpr :: "TypeExpr \<Rightarrow> error + DecodedTypeExpr"
  and decodeTypeExprs :: "TypeExpr list \<Rightarrow> error + DecodedTypeExpr list" where
  "decodeTypeExpr (TypeExpr (Primitive p) ps) =
     (if p = ''Nullable'' then
        (case ps of
           [] \<Rightarrow> Inl TypeError
         | q # _ \<Rightarrow> (case decodeTypeExpr q of Inl e \<Rightarrow> Inl e | Inr d \<Rightarrow> Inr (DNullable d)))
      else Inr (DPrimitive p))"
| "decodeTypeExpr (TypeExpr (TypeParam v) ps) = Inl UnexpectedTypeExpr"
| "decodeTypeExpr (TypeExpr (Reference sn) ps) =
     (case decodeTypeExprs ps of Inl e \<Rightarrow> Inl e | Inr ds \<Rightarrow> Inr (DReference sn ds))"
| "decodeTypeExprs [] = Inr []"
| "decodeTypeExprs (t # ts) =
     (case decodeTypeExpr t of
        Inl e \<Rightarrow> Inl e
      | Inr d \<Rightarrow> (case decodeTypeExprs ts of Inl e \<Rightarrow> Inl e | Inr ds \<Rightarrow> Inr (d # ds)))"

text \<open>
  Modelled from the spec: the substitution of type parameters used by \<^verbatim>\<open>expandTypeAlias\<close>
  and \<^verbatim>\<open>expandNewType\<close> of util.ts is not among the sources. Type parameters are replaced
  positionally: the i-th formal parameter by the i-th actual one.
\<close>

fun substituteTypeVariables :: "(string \<times> TypeExpr) list \<Rightarrow> TypeExpr \<Rightarrow> TypeExpr" where
  "substituteTypeVariables m (TypeExpr (TypeParam v) ps) =
     (case map_of m v of
        Some t \<Rightarrow> t
      | None \<Rightarrow> TypeExpr (TypeParam v) (map (substituteTypeVariables m) ps))"
| "substituteTypeVariables m (TypeExpr (Primitive p) ps) =
     TypeExpr (Primitive p) (map (substituteTypeVariables m) ps)"
| "substituteTypeVariables m (TypeExpr (Reference sn) ps) =
     TypeExpr (Reference sn) (map (substituteTypeVariables m) ps)"

text \<open>
  Modelled from the spec: \<^verbatim>\<open>expandTypeAlias\<close> and \<^verbatim>\<open>expandNewType\<close> of util.ts are not
  among the sources. For a reference whose declaration is a type alias (a newtype), the
  result is the underlying type expression with the type parameters substituted; for
  anything else it is the sentinel \<open>null\<close>, here \<open>None\<close>.
\<close>

definition expandTypeAlias :: "DeclResolver \<Rightarrow> TypeExpr \<Rightarrow> error + TypeExpr option" where
  "expandTypeAlias resolver typeExpr =
     (case typeRef typeExpr of
        Reference sn \<Rightarrow>
          (case resolver sn of
             None \<Rightarrow> Inl (UnresolvedReference sn)
           | Some sdecl \<Rightarrow>
               (case d_type (sd_decl sdecl) of
                  DType tparams body \<Rightarrow>
                    Inr (Some (substituteTypeVariables (zip tparams (parameters typeExpr)) body))
                | _ \<Rightarrow> Inr None))
      | _ \<Rightarrow> Inr None)"

definition expandNewType :: "DeclResolver \<Rightarrow> TypeExpr \<Rightarrow> error + TypeExpr option" where
  "expandNewType resolver typeExpr =
     (case typeRef typeExpr of
        Reference sn \<Rightarrow>
          (case resolver sn of
             None \<Rightarrow> Inl (UnresolvedReference sn)
           | Some sdecl \<Rightarrow>
               (case d_type (sd_decl sdecl) of
                  DNewtype tparams body \<Rightarrow>
                    Inr (Some (substituteTypeVariables (zip tparams (parameters typeExpr)) body))
                | _ \<Rightarrow> Inr None))
      | _ \<Rightarrow> Inr None)"

text \<open>
  Modelled from the spec: \<^verbatim>\<open>isEnum\<close> of the ADL runtime is not among the sources. A union
  is an enumeration when every variant carries no payload, that is, has the type Void.
\<close>

definition isEnum :: "Field list \<Rightarrow> bool" where
  "isEnum flds = list_all (\<lambda>f. typeRef (f_typeExpr f) = Primitive ''Void'') flds"

text \<open>
  Modelled from the spec: \<^verbatim>\<open>getAnnotation\<close> of util.ts is not among the sources. It looks
  an annotation key up and gives \<open>undefined\<close>, here \<open>None\<close>, when the key is absent.
\<close>

definition getAnnotation :: "Annotations \<Rightarrow> ScopedName \<Rightarrow> Json option" where
  "getAnnotation annotations key = map_of annotations key"

section \<open>Names\<close>

definition MAYBE :: ScopedName where "MAYBE = scopedName ''sys.types'' ''Maybe''"
definition DB_TABLE :: ScopedName where "DB_TABLE = scopedName ''common.db'' ''DbTable''"
definition DB_COLUMN_NAME :: ScopedName where
  "DB_COLUMN_NAME = scopedName ''common.db'' ''DbColumnName''"
definition DB_KEY :: ScopedName where "DB_KEY = scopedName ''common.db'' ''DbKey''"
definition INSTANT :: ScopedName where "INSTANT = scopedName ''common'' ''Instant''"
definition LOCAL_DATE :: ScopedName where "LOCAL_DATE = scopedName ''common'' ''LocalDate''"
definition LOCAL_DATETIME :: ScopedName where
  "LOCAL_DATETIME = scopedName ''common'' ''LocalDateTime''"

text \<open>
  Two functions come from outside the repository's sources: \<^verbatim>\<open>snakeCase\<close> of the package
  change-case and \<^verbatim>\<open>typeExprToStringUnscoped\<close> of the ADL runtime. Every definition that
  needs them takes them as a parameter.
\<close>

record Externals =
  snakeCase :: "string \<Rightarrow> string"
  typeExprToStringUnscoped :: "TypeExpr \<Rightarrow> string"

text \<open>JavaScript's truthiness of a JSON value, and the read of a property of a value.\<close>

fun truthy :: "Json \<Rightarrow> bool" where
  "truthy JNull = False"
| "truthy (JBool b) = b"
| "truthy (JNumber n) = (n \<noteq> 0)"
| "truthy (JString s) = (s \<noteq> [])"
| "truthy (JArray _) = True"
| "truthy (JObject _) = True"

fun property :: "Json \<Rightarrow> string \<Rightarrow> Json option" where
  "property (JObject kvs) k = map_of kvs k"
| "property _ k = None"

definition getTableName :: "Externals \<Rightarrow> ScopedDecl \<Rightarrow> string" where
  "getTableName ext scopedDecl =
     (case getAnnotation (d_annotations (sd_decl scopedDecl)) DB_TABLE of
        Some ann \<Rightarrow>
          (if truthy ann then
             (case property ann ''tableName'' of
                Some (JString s) \<Rightarrow> s
              | _ \<Rightarrow> snakeCase ext (d_name (sd_decl scopedDecl)))
           else snakeCase ext (d_name (sd_decl scopedDecl)))
      | None \<Rightarrow> snakeCase ext (d_name (sd_decl scopedDecl)))"

definition getColumnName :: "Externals \<Rightarrow> Field \<Rightarrow> string" where
  "getColumnName ext field =
     (case getAnnotation (f_annotations field) DB_COLUMN_NAME of
        Some (JString s) \<Rightarrow> s
      | _ \<Rightarrow> snakeCase ext (f_name field))"

section \<open>Dialect profiles\<close>

record DbProfile =
  idColumnType :: string
  enumColumnType :: string
  primColumnType :: "string \<Rightarrow> string"

definition postgresPrim :: "string \<Rightarrow> string" where
  "postgresPrim ptype =
     (if ptype = ''String'' then ''text''
      else if ptype = ''Bool'' then ''boolean''
      else if ptype = ''Json'' then ''json''
      else if ptype = ''Int8'' then ''smallint''
      else if ptype = ''Int16'' then ''smallint''
      else if ptype = ''Int32'' then ''integer''
      else if ptype = ''Int64'' then ''bigint''
      else if ptype = ''Word8'' then ''smallint''
      else if ptype = ''Word16'' then ''smallint''
      else if ptype = ''Word32'' then ''integer''
      else if ptype = ''Word64'' then ''bigint''
      else if ptype = ''Float'' then ''real''
      else if ptype = ''Double'' then ''double precision''
      else ''json'')"

definition postgresDbProfile :: DbProfile where
  "postgresDbProfile =
     \<lparr>idColumnType = ''text'', enumColumnType = ''text'', primColumnType = postgresPrim\<rparr>"

definition postgres2Prim :: "string \<Rightarrow> string" where
  "postgres2Prim ptype =
     (if ptype = ''String'' then ''text''
      else if ptype = ''Bool'' then ''boolean''
      else if ptype = ''Json'' then ''jsonb''
      else if ptype = ''Int8'' then ''smallint''
      else if ptype = ''Int16'' then ''smallint''
      else if ptype = ''Int32'' then ''integer''
      else if ptype = ''Int64'' then ''bigint''
      else if ptype = ''Word8'' then ''smallint''
      else if ptype = ''Word16'' then ''smallint''
      else if ptype = ''Word32'' then ''integer''
      else if ptype = ''Word64'' then ''bigint''
      else if ptype = ''Float'' then ''real''
      else if ptype = ''Double'' then ''double precision''
      else ''jsonb'')"

definition postgres2DbProfile :: DbProfile where
  "postgres2DbProfile =
     \<lparr>idColumnType = ''text'', enumColumnType = ''text'', primColumnType = postgres2Prim\<rparr>"

definition mssql2Prim :: "string \<Rightarrow> string" where
  "mssql2Prim ptype =
     (if ptype = ''String'' then ''nvarchar(max)''
      else if ptype = ''Int8'' then ''smallint''
      else if ptype = ''Int16'' then ''smallint''
      else if ptype = ''Int32'' then ''int''
      else if ptype = ''Int64'' then ''bigint''
      else if ptype = ''Word8'' then ''smallint''
      else if ptype = ''Word16'' then ''smallint''
      else if ptype = ''Word32'' then ''int''
      else if ptype = ''Word64'' then ''bigint''
      else if ptype = ''Float'' then ''float(24)''
      else if ptype = ''Double'' then ''float(53)''
      else if ptype = ''Bool'' then ''bit''
      else ''nvarchar(max)'')"

definition mssql2DbProfile :: DbProfile where
  "mssql2DbProfile =
     \<lparr>idColumnType = ''nvchar(64)'', enumColumnType = ''nvchar(64)'',
      primColumnType = mssql2Prim\<rparr>"

section \<open>The type-to-column mapper\<close>

record ForeignKey =
  fk_table :: string
  fk_column :: string

record ColumnType =
  sqltype :: string
  fkey :: "ForeignKey option"

text \<open>
  In \<^verbatim>\<open>getColumnType1\<close> the alias expansion is tried first and the newtype expansion only
  when the alias expansion gave \<open>null\<close>.
\<close>

definition expandReference :: "DeclResolver \<Rightarrow> TypeExpr \<Rightarrow> error + TypeExpr option" where
  "expandReference resolver typeExpr =
     (case expandTypeAlias resolver typeExpr of
        Inl e \<Rightarrow> Inl e
      | Inr (Some texpr2) \<Rightarrow> Inr (Some texpr2)
      | Inr None \<Rightarrow> expandNewType resolver typeExpr)"

definition isEnumUnion :: "ScopedDecl \<Rightarrow> bool" where
  "isEnumUnion sdecl =
     (case d_type (sd_decl sdecl) of DUnion tparams flds \<Rightarrow> isEnum flds | _ \<Rightarrow> False)"

text \<open>
  \<^verbatim>\<open>getColumnType1\<close> calls itself on the expansion of an alias or a newtype, with nothing
  that bounds the number of expansions: it is a partial function, and \<open>None\<close> says that
  the recursion never ends by itself, with no result and no failure of its own. How such
  a run ends on an engine with a call stack is the function \<open>getColumnType1_stack\<close> below.
\<close>

partial_function (option) getColumnType1 ::
  "DeclResolver \<Rightarrow> TypeExpr \<Rightarrow> DbProfile \<Rightarrow> (error + string) option" where
  "getColumnType1 resolver typeExpr dbProfile =
     (case decodeTypeExpr typeExpr of
        Inl e \<Rightarrow> Some (Inl e)
      | Inr dtype \<Rightarrow>
          (case dtype of
             DReference refScopedName ps \<Rightarrow>
               (case resolver refScopedName of
                  None \<Rightarrow> Some (Inl (UnresolvedReference refScopedName))
                | Some sdecl \<Rightarrow>
                    if scopedNamesEqual refScopedName INSTANT then Some (Inr ''timestamp'')
                    else if scopedNamesEqual refScopedName LOCAL_DATE then Some (Inr ''date'')
                    else if scopedNamesEqual refScopedName LOCAL_DATETIME
                      then Some (Inr ''timestamp'')
                    else if isEnumUnion sdecl then Some (Inr (enumColumnType dbProfile))
                    else
                      (case expandReference resolver typeExpr of
                         Inl e \<Rightarrow> Some (Inl e)
                       | Inr (Some texpr2) \<Rightarrow> getColumnType1 resolver texpr2 dbProfile
                       | Inr None \<Rightarrow> Some (Inr (primColumnType dbProfile (kind dtype)))))
           | _ \<Rightarrow> Some (Inr (primColumnType dbProfile (kind dtype)))))"

declare getColumnType1.simps [code]

text \<open>
  The same function as it runs on an engine whose call stack has room for \<open>n\<close> more
  calls. The call of line 236 is an ordinary call (JavaScript engines do not eliminate
  it), so every expansion takes one more frame; a call for which no frame is left throws
  the engine's \<open>RangeError\<close>. The body is that of \<^const>\<open>getColumnType1\<close>.
\<close>

fun getColumnType1_stack ::
  "nat \<Rightarrow> DeclResolver \<Rightarrow> TypeExpr \<Rightarrow> DbProfile \<Rightarrow> error + string" where
  "getColumnType1_stack 0 resolver typeExpr dbProfile = Inl RangeError"
| "getColumnType1_stack (Suc n) resolver typeExpr dbProfile =
     (case decodeTypeExpr typeExpr of
        Inl e \<Rightarrow> Inl e
      | Inr dtype \<Rightarrow>
          (case dtype of
             DReference refScopedName ps \<Rightarrow>
               (case resolver refScopedName of
                  None \<Rightarrow> Inl (UnresolvedReference refScopedName)
                | Some sdecl \<Rightarrow>
                    if scopedNamesEqual refScopedName INSTANT then Inr ''timestamp''
                    else if scopedNamesEqual refScopedName LOCAL_DATE then Inr ''date''
                    else if scopedNamesEqual refScopedName LOCAL_DATETIME then Inr ''timestamp''
                    else if isEnumUnion sdecl then Inr (enumColumnType dbProfile)
                    else
                      (case expandReference resolver typeExpr of
                         Inl e \<Rightarrow> Inl e
                       | Inr (Some texpr2) \<Rightarrow> getColumnType1_stack n resolver texpr2 dbProfile
                       | Inr None \<Rightarrow> Inr (primColumnType dbProfile (kind dtype))))
           | _ \<Rightarrow> Inr (primColumnType dbProfile (kind dtype))))"

definition getForeignKeyRef ::
  "Externals \<Rightarrow> DeclResolver \<Rightarrow> TypeExpr \<Rightarrow> error + ForeignKey option" where
  "getForeignKeyRef ext resolver typeExpr =
     (case decodeTypeExpr typeExpr of
        Inl e \<Rightarrow> Inl e
      | Inr dtype \<Rightarrow>
          (case dtype of
             DReference refScopedName ps \<Rightarrow>
               (if scopedNamesEqual refScopedName DB_KEY then
                  (case ps of
                     [] \<Rightarrow> Inl TypeError
                   | param0 # _ \<Rightarrow>
                       (case param0 of
                          DReference sn0 ps0 \<Rightarrow>
                            (case resolver sn0 of
                               None \<Rightarrow> Inl (UnresolvedReference sn0)
                             | Some sdecl \<Rightarrow>
                                 Inr (Some \<lparr>fk_table = getTableName ext sdecl,
                                            fk_column = ''id''\<rparr>))
                        | _ \<Rightarrow> Inr None))
                else Inr None)
           | _ \<Rightarrow> Inr None))"

definition isNullableWrapper :: "DecodedTypeExpr \<Rightarrow> bool" where
  "isNullableWrapper dtype =
     (kind dtype = ''Nullable'' \<or>
      (case dtype of DReference sn ps \<Rightarrow> scopedNamesEqual sn MAYBE | _ \<Rightarrow> False))"

definition getColumnType ::
  "Externals \<Rightarrow> DeclResolver \<Rightarrow> TypeExpr \<Rightarrow> DbProfile \<Rightarrow> ColumnType result" where
  "getColumnType ext resolver typeExpr dbProfile =
     (case decodeTypeExpr typeExpr of
        Inl e \<Rightarrow> throw e
      | Inr dtype \<Rightarrow>
          if isNullableWrapper dtype then
            (case parameters typeExpr of
               [] \<Rightarrow> throw TypeError
             | p0 # _ \<Rightarrow>
                 rbind (getColumnType1 resolver p0 dbProfile) (\<lambda>s.
                 rbind (lift (getForeignKeyRef ext resolver p0)) (\<lambda>fk.
                 ok \<lparr>sqltype = s, fkey = fk\<rparr>)))
          else
            rbind (getColumnType1 resolver typeExpr dbProfile) (\<lambda>s.
            rbind (lift (getForeignKeyRef ext resolver typeExpr)) (\<lambda>fk.
            ok \<lparr>sqltype = s @ '' not null'', fkey = fk\<rparr>)))"

section \<open>Strings\<close>

text \<open>
  What the generator uses of JavaScript's strings and arrays: the line feed, \<^verbatim>\<open>join\<close>,
  \<^verbatim>\<open>padEnd\<close>, \<^verbatim>\<open>replace\<close> with a string pattern (the first occurrence only), the
  decimal spelling of an index, and the order in which a \<^verbatim>\<open>Set\<close> lists its elements
  (first insertion).
\<close>

definition newline :: string where
  "newline = [CHR 0x0A]"

fun join :: "string \<Rightarrow> string list \<Rightarrow> string" where
  "join sep [] = []"
| "join sep [x] = x"
| "join sep (x # y # ys) = x @ sep @ join sep (y # ys)"

definition padEnd :: "nat \<Rightarrow> string \<Rightarrow> string" where
  "padEnd n s = s @ replicate (n - length s) CHR '' ''"

fun replaceFirst :: "string \<Rightarrow> string \<Rightarrow> string \<Rightarrow> string" where
  "replaceFirst pat rep [] = (if pat = [] then rep else [])"
| "replaceFirst pat rep (c # cs) =
     (if prefix pat (c # cs) then rep @ drop (length pat) (c # cs)
      else c # replaceFirst pat rep cs)"

function natToString :: "nat \<Rightarrow> string" where
  "natToString n =
     (if n < 10 then [''0123456789'' ! n]
      else natToString (n div 10) @ [''0123456789'' ! (n mod 10)])"
  by pat_completeness auto
termination
  by (relation "measure id") auto

declare natToString.simps [simp del]

definition insertionOrder :: "'a list \<Rightarrow> 'a list" where
  "insertionOrder xs = rev (remdups (rev xs))"

text \<open>The keys that \<^verbatim>\<open>for (const k in xs)\<close> visits on an array: its indices, as strings.\<close>

definition arrayKeys :: "'a list \<Rightarrow> string list" where
  "arrayKeys xs = map natToString [0..<length xs]"

definition tweakTypeComment :: "string \<Rightarrow> string" where
  "tweakTypeComment comment =
     replaceFirst ''Instant'' ''common.Instant''
       (replaceFirst ''DbKey'' ''common.db.DbKey'' comment)"

section \<open>The table annotation\<close>

text \<open>
  The generator reads the directives of a table as \<^verbatim>\<open>t.ann && t.ann[k] || d\<close>: the
  property when the annotation and the property are truthy, the default \<open>d\<close> otherwise.
\<close>

definition annotationProperty :: "Json \<Rightarrow> string \<Rightarrow> Json option" where
  "annotationProperty ann k =
     (if truthy ann then
        (case property ann k of
           Some v \<Rightarrow> (if truthy v then Some v else None)
         | None \<Rightarrow> None)
      else None)"

text \<open>
  The source declares the directives with the types \<^verbatim>\<open>string[]\<close> and \<^verbatim>\<open>string[][]\<close> and
  does not check them. The model reads them at these types; a value of another shape, which
  the declared type excludes, is the failure \<open>IllTypedAnnotation\<close>.
\<close>

fun asString :: "Json \<Rightarrow> error + string" where
  "asString (JString s) = Inr s"
| "asString _ = Inl IllTypedAnnotation"

fun sequenceE :: "(error + 'a) list \<Rightarrow> error + 'a list" where
  "sequenceE [] = Inr []"
| "sequenceE (Inl e # rs) = Inl e"
| "sequenceE (Inr x # rs) = (case sequenceE rs of Inl e \<Rightarrow> Inl e | Inr xs \<Rightarrow> Inr (x # xs))"

fun asStrings :: "Json \<Rightarrow> error + string list" where
  "asStrings (JArray js) = sequenceE (map asString js)"
| "asStrings _ = Inl IllTypedAnnotation"

fun asStringGroups :: "Json \<Rightarrow> error + string list list" where
  "asStringGroups (JArray js) = sequenceE (map asStrings js)"
| "asStringGroups _ = Inl IllTypedAnnotation"

definition readStrings :: "Json \<Rightarrow> string \<Rightarrow> error + string list" where
  "readStrings ann k =
     (case annotationProperty ann k of None \<Rightarrow> Inr [] | Some v \<Rightarrow> asStrings v)"

definition readStringGroups :: "Json \<Rightarrow> string \<Rightarrow> error + string list list" where
  "readStringGroups ann k =
     (case annotationProperty ann k of None \<Rightarrow> Inr [] | Some v \<Rightarrow> asStringGroups v)"

section \<open>The schema generator\<close>

record DbTable =
  dbt_scopedDecl :: ScopedDecl
  dbt_struct :: "Field list"
  dbt_ann :: Json
  dbt_name :: string

text \<open>
  Modelled from the spec: \<^verbatim>\<open>forEachDecl\<close> of util.ts is not among the sources. It visits
  every declaration of every loaded module, with the name of its module.
\<close>

definition forEachDecl :: "Module list \<Rightarrow> ScopedDecl list" where
  "forEachDecl modules =
     concat (map (\<lambda>m. map (\<lambda>d. \<lparr>sd_moduleName = m_name m, sd_decl = d\<rparr>) (m_decls m)) modules)"

text \<open>
  The callback of \<^verbatim>\<open>forEachDecl\<close>: a struct whose table annotation is neither absent nor
  \<open>null\<close> is a table. The tables are then sorted by name with a comparator on the names;
  \<^verbatim>\<open>Array.prototype.sort\<close> is stable, as \<^const>\<open>sort_key\<close> is. JavaScript compares strings
  code unit by code unit; here a string is a list of 8-bit characters, compared
  lexicographically by character code.
\<close>

definition dbTableOf :: "Externals \<Rightarrow> ScopedDecl \<Rightarrow> DbTable option" where
  "dbTableOf ext scopedDecl =
     (case d_type (sd_decl scopedDecl) of
        DStruct tparams flds \<Rightarrow>
          (case getAnnotation (d_annotations (sd_decl scopedDecl)) DB_TABLE of
             None \<Rightarrow> None
           | Some ann \<Rightarrow>
               if ann = JNull then None
               else Some \<lparr>dbt_scopedDecl = scopedDecl, dbt_struct = flds, dbt_ann = ann,
                          dbt_name = getTableName ext scopedDecl\<rparr>)
      | _ \<Rightarrow> None)"

definition findDbTables :: "Externals \<Rightarrow> Module list \<Rightarrow> DbTable list" where
  "findDbTables ext modules =
     sort_key dbt_name (List.map_filter (dbTableOf ext) (forEachDecl modules))"

record Line =
  code :: string
  comment :: "string option"

definition foreignKeyStatement :: "string \<Rightarrow> string \<Rightarrow> ForeignKey \<Rightarrow> string" where
  "foreignKeyStatement tname columnName fk =
     ''alter table '' @ tname @ '' add constraint '' @ tname @ ''_'' @ columnName @
     ''_fk foreign key ('' @ columnName @ '') references '' @ fk_table fk @ ''('' @
     fk_column fk @ '');''"

text \<open>
  The loop over the fields of a table: one line per field, and one foreign-key statement
  pushed on the constraints for a column that has a foreign-key target.
\<close>

fun fieldsLoop ::
  "Externals \<Rightarrow> DeclResolver \<Rightarrow> DbProfile \<Rightarrow> string \<Rightarrow> Field list \<Rightarrow>
   Line list \<times> string list \<Rightarrow> (Line list \<times> string list) result" where
  "fieldsLoop ext resolver dbProfile tname [] (lines, constraints) = ok (lines, constraints)"
| "fieldsLoop ext resolver dbProfile tname (f # fs) (lines, constraints) =
     rbind (getColumnType ext resolver (f_typeExpr f) dbProfile) (\<lambda>columnType.
       fieldsLoop ext resolver dbProfile tname fs
         (lines @ [\<lparr>code = getColumnName ext f @ '' '' @ sqltype columnType,
                    comment = Some (tweakTypeComment
                                      (typeExprToStringUnscoped ext (f_typeExpr f)))\<rparr>],
          (case fkey columnType of
             None \<Rightarrow> constraints
           | Some fk \<Rightarrow>
               constraints @ [foreignKeyStatement tname (getColumnName ext f) fk])))"

fun findColName :: "Externals \<Rightarrow> Field list \<Rightarrow> string \<Rightarrow> string" where
  "findColName ext [] s = s"
| "findColName ext (f # fs) s =
     (if f_name f = s then getColumnName ext f else findColName ext fs s)"

definition indexStatement :: "Externals \<Rightarrow> DbTable \<Rightarrow> nat \<times> string list \<Rightarrow> string" where
  "indexStatement ext t ig =
     ''create index '' @ dbt_name t @ ''_'' @ natToString (fst ig + 1) @ ''_idx on '' @
     dbt_name t @ ''('' @ join '', '' (map (findColName ext (dbt_struct t)) (snd ig)) @ '');''"

definition uniquenessStatement :: "Externals \<Rightarrow> DbTable \<Rightarrow> nat \<times> string list \<Rightarrow> string" where
  "uniquenessStatement ext t ig =
     ''alter table '' @ dbt_name t @ '' add constraint '' @ dbt_name t @ ''_'' @
     natToString (fst ig + 1) @ ''_con unique ('' @
     join '', '' (map (findColName ext (dbt_struct t)) (snd ig)) @ '');''"

text \<open>
  The lines of a table as they are written: a comma after every line but the last, and the
  comment, when it is not empty, after the code padded to 36 characters.
\<close>

definition renderLine :: "Line \<Rightarrow> bool \<Rightarrow> string" where
  "renderLine l isLast =
     (let line = (if isLast then code l else code l @ '','')
      in case comment l of
           None \<Rightarrow> line
         | Some c \<Rightarrow> if c = [] then line else padEnd 36 line @ '' -- '' @ c)"

fun renderLines :: "Line list \<Rightarrow> string list" where
  "renderLines [] = []"
| "renderLines (l # ls) = (''  '' @ renderLine l (ls = []) @ newline) # renderLines ls"

text \<open>
  The body of the loop over the tables. The state is what the loop has written so far, the
  constraints and the extra SQL collected so far.
\<close>

definition tableStep ::
  "Externals \<Rightarrow> DeclResolver \<Rightarrow> DbProfile \<Rightarrow> DbTable \<Rightarrow>
   string list \<times> string list \<times> string list \<Rightarrow> (string list \<times> string list \<times> string list) result"
  where
  "tableStep ext resolver dbProfile t st =
     (case st of (written, constraints, allExtraSql) \<Rightarrow>
        rbind (lift (readStrings (dbt_ann t) ''withPrimaryKey'')) (\<lambda>withPrimaryKey.
        rbind (lift (readStringGroups (dbt_ann t) ''indexes'')) (\<lambda>indexes.
        rbind (lift (readStringGroups (dbt_ann t) ''uniquenessConstraints''))
          (\<lambda>uniquenessConstraints.
        rbind (lift (readStrings (dbt_ann t) ''extraSql'')) (\<lambda>extraSql.
        let withIdPrimaryKey = (annotationProperty (dbt_ann t) ''withIdPrimaryKey'' \<noteq> None);
            lines0 =
              (if withIdPrimaryKey
               then [\<lparr>code = ''id '' @ idColumnType dbProfile @ '' not null'', comment = None\<rparr>]
               else [])
        in
        rbind (fieldsLoop ext resolver dbProfile (dbt_name t) (dbt_struct t)
                 (lines0, constraints)) (\<lambda>(lines1, constraints1).
        let constraints2 = constraints1 @ map (indexStatement ext t) (enumerate 0 indexes);
            constraints3 =
              constraints2 @ map (uniquenessStatement ext t) (enumerate 0 uniquenessConstraints);
            lines2 =
              lines1 @
              (if withIdPrimaryKey then [\<lparr>code = ''primary key(id)'', comment = None\<rparr>]
               else if withPrimaryKey \<noteq> [] then
                 [\<lparr>code = ''primary key('' @
                           join '','' (map (findColName ext (dbt_struct t)) withPrimaryKey) @ '')'',
                   comment = None\<rparr>]
               else [])
        in
        ok (written @ [newline, ''create table '' @ dbt_name t @ ''('' @ newline] @
              renderLines lines2 @ ['');'' @ newline],
            constraints3,
            allExtraSql @ extraSql)))))))"

fun tablesLoop ::
  "Externals \<Rightarrow> DeclResolver \<Rightarrow> DbProfile \<Rightarrow> DbTable list \<Rightarrow>
   string list \<times> string list \<times> string list \<Rightarrow> (string list \<times> string list \<times> string list) result"
  where
  "tablesLoop ext resolver dbProfile [] st = ok st"
| "tablesLoop ext resolver dbProfile (t # ts) st =
     rbind (tableStep ext resolver dbProfile t st) (tablesLoop ext resolver dbProfile ts)"

definition header :: "DbTable list \<Rightarrow> string list" where
  "header dbTables =
     [''-- Schema auto-generated from adl modules: '' @
        join '', '' (insertionOrder (map (\<lambda>dbt. sd_moduleName (dbt_scopedDecl dbt)) dbTables)) @
        newline,
      ''--'' @ newline,
      ''-- column comments show original ADL types'' @ newline]"

text \<open>
  What is written after the tables: the constraints, each on a line, and then one line for
  every key that the \<^verbatim>\<open>for ... in\<close> loop over the extra SQL visits.
\<close>

definition trailer :: "string list \<Rightarrow> string list \<Rightarrow> string list" where
  "trailer constraints allExtraSql =
     (if constraints \<noteq> [] then [newline] else []) @
     map (\<lambda>constraint. constraint @ newline) constraints @
     (if allExtraSql \<noteq> [] then [newline] else []) @
     map (\<lambda>sql. sql @ newline) (arrayKeys allExtraSql)"

text \<open>
  \<^verbatim>\<open>generateSqlSchema\<close>, after the loader has produced the modules and the resolver. The
  result is the sequence of strings written to the output file.
\<close>

definition generateSqlSchema ::
  "Externals \<Rightarrow> Module list \<Rightarrow> DeclResolver \<Rightarrow> DbProfile \<Rightarrow> string list result" where
  "generateSqlSchema ext modules resolver dbProfile =
     (let dbTables = findDbTables ext modules
      in rbind (tablesLoop ext resolver dbProfile dbTables (header dbTables, [], []))
           (\<lambda>(written, constraints, allExtraSql).
              ok (written @ trailer constraints allExtraSql)))"

definition fileContents :: "string list \<Rightarrow> string" where
  "fileContents written = concat written"

section \<open>Notions used to state the properties\<close>

text \<open>
  The dialect profiles that the command line can select, and the primitive kinds that the
  \<^verbatim>\<open>switch\<close> of each profile lists (the two postgres profiles list the same kinds).
\<close>

definition shippedProfiles :: "DbProfile list" where
  "shippedProfiles = [postgresDbProfile, postgres2DbProfile, mssql2DbProfile]"

definition postgresPrimitives :: "string list" where
  "postgresPrimitives =
     [''String'', ''Bool'', ''Json'', ''Int8'', ''Int16'', ''Int32'', ''Int64'',
      ''Word8'', ''Word16'', ''Word32'', ''Word64'', ''Float'', ''Double'']"

definition mssql2Primitives :: "string list" where
  "mssql2Primitives =
     [''String'', ''Int8'', ''Int16'', ''Int32'', ''Int64'',
      ''Word8'', ''Word16'', ''Word32'', ''Word64'', ''Float'', ''Double'', ''Bool'']"

text \<open>
  The expansion relation of a declaration graph: \<open>(texpr2, typeExpr)\<close> is in it when the
  alias or newtype expansion of \<open>typeExpr\<close> is \<open>texpr2\<close>. The graph has no cyclic and no
  endless chain of aliases and newtypes when the relation is well-founded.
\<close>

definition aliasChain :: "DeclResolver \<Rightarrow> (TypeExpr \<times> TypeExpr) set" where
  "aliasChain resolver =
     {(texpr2, typeExpr). expandReference resolver typeExpr = Inr (Some texpr2)}"

text \<open>
  The type expression on which \<^verbatim>\<open>getColumnType1\<close> calls itself, if it does: the reference
  resolves, is none of the temporal types and no enumeration, and expands.
\<close>

definition recursesOn :: "DeclResolver \<Rightarrow> TypeExpr \<Rightarrow> TypeExpr option" where
  "recursesOn resolver typeExpr =
     (case decodeTypeExpr typeExpr of
        Inr (DReference sn ps) \<Rightarrow>
          (case resolver sn of
             Some sdecl \<Rightarrow>
               if scopedNamesEqual sn INSTANT \<or> scopedNamesEqual sn LOCAL_DATE \<or>
                  scopedNamesEqual sn LOCAL_DATETIME \<or> isEnumUnion sdecl
               then None
               else (case expandReference resolver typeExpr of
                       Inr (Some texpr2) \<Rightarrow> Some texpr2
                     | _ \<Rightarrow> None)
           | None \<Rightarrow> None)
      | _ \<Rightarrow> None)"

text \<open>
  The type expressions on which \<^verbatim>\<open>getColumnType1\<close> is called in turn during one run, as far
  as a stack of \<open>n\<close> frames lets the run go.
\<close>

fun expansionChain :: "nat \<Rightarrow> DeclResolver \<Rightarrow> TypeExpr \<Rightarrow> TypeExpr list" where
  "expansionChain 0 resolver typeExpr = []"
| "expansionChain (Suc n) resolver typeExpr =
     typeExpr #
     (case recursesOn resolver typeExpr of
        Some texpr2 \<Rightarrow> expansionChain n resolver texpr2
      | None \<Rightarrow> [])"

text \<open>
  The detection of a cycle in the words of the specification: the reduction keeps the set
  of the declarations it has visited and fails on a revisit, so that no run is ever called
  twice on a reference to the same declaration.
\<close>

definition noRevisit_spec :: "TypeExpr list \<Rightarrow> bool" where
  "noRevisit_spec chain = distinct (map typeRef chain)"

text \<open>
  The test \<^verbatim>\<open>ann != undefined\<close> of the generator on the table annotation of a
  declaration: the annotation is present and is not \<open>null\<close>.
\<close>

definition tableAnnotated :: "ScopedDecl \<Rightarrow> bool" where
  "tableAnnotated sdecl =
     (case getAnnotation (d_annotations (sd_decl sdecl)) DB_TABLE of
        Some ann \<Rightarrow> ann \<noteq> JNull
      | None \<Rightarrow> False)"

text \<open>
  The foreign-key wrapper in the words of the specification: a reference to the database
  key declaration whose single type parameter is itself a reference to a declaration that
  carries the table annotation.
\<close>

definition carriesTableAnnotation :: "ScopedDecl \<Rightarrow> bool" where
  "carriesTableAnnotation sdecl =
     (getAnnotation (d_annotations (sd_decl sdecl)) DB_TABLE \<noteq> None)"

definition isForeignKeyWrapper_spec :: "DeclResolver \<Rightarrow> TypeExpr \<Rightarrow> bool" where
  "isForeignKeyWrapper_spec resolver typeExpr =
     (case typeExpr of
        TypeExpr (Reference sn) [TypeExpr (Reference sn0) ps0] \<Rightarrow>
          sn = DB_KEY \<and>
          (case resolver sn0 of Some sdecl \<Rightarrow> carriesTableAnnotation sdecl | None \<Rightarrow> False)
      | _ \<Rightarrow> False)"

text \<open>Struct declarations, and a module restricted to its struct declarations.\<close>

definition isStruct :: "Decl \<Rightarrow> bool" where
  "isStruct d = (case d_type d of DStruct tparams flds \<Rightarrow> True | _ \<Rightarrow> False)"

definition structsOnly :: "Module \<Rightarrow> Module" where
  "structsOnly m = m\<lparr>m_decls := filter isStruct (m_decls m)\<rparr>"

text \<open>The statements of the output, recognised by their text.\<close>

definition isCreateTable :: "string \<Rightarrow> bool" where
  "isCreateTable c = prefix ''create table '' c"

definition createTableStatements :: "string list \<Rightarrow> string list" where
  "createTableStatements out = filter isCreateTable out"

definition isForeignKeyStatement :: "string \<Rightarrow> string \<Rightarrow> bool" where
  "isForeignKeyStatement tname c =
     (\<exists>columnName fk. c = foreignKeyStatement tname columnName fk)"

text \<open>
  What one table contributes: its block of written strings (an empty line, the opening of
  the \<^verbatim>\<open>create table\<close> statement, the indented lines, the closing), and its group of
  constraints (its foreign keys, then its indexes, then its uniqueness constraints).
\<close>

definition tableBlock :: "DbTable \<Rightarrow> string list \<Rightarrow> bool" where
  "tableBlock t chunks =
     (\<exists>cols. chunks = [newline, ''create table '' @ dbt_name t @ ''('' @ newline] @ cols @
                        ['');'' @ newline] \<and>
             list_all (prefix ''  '') cols)"

definition tableConstraints :: "Externals \<Rightarrow> DbTable \<Rightarrow> string list \<Rightarrow> bool" where
  "tableConstraints ext t cs =
     (\<exists>fks indexes uniquenessConstraints.
        cs = fks @ map (indexStatement ext t) (enumerate 0 indexes) @
             map (uniquenessStatement ext t) (enumerate 0 uniquenessConstraints) \<and>
        list_all (isForeignKeyStatement (dbt_name t)) fks \<and>
        readStringGroups (dbt_ann t) ''indexes'' = Inr indexes \<and>
        readStringGroups (dbt_ann t) ''uniquenessConstraints'' = Inr uniquenessConstraints)"



section \<open>Example declarations\<close>

text \<open>
  Stand-ins for the two external functions, good for plain camel-case identifiers: they
  serve only to run the generator on the examples below.
\<close>

definition lowerChar :: "char \<Rightarrow> char" where
  "lowerChar c =
     (case map_of (zip ''ABCDEFGHIJKLMNOPQRSTUVWXYZ'' ''abcdefghijklmnopqrstuvwxyz'') c of
        Some l \<Rightarrow> l
      | None \<Rightarrow> c)"

fun camelTail :: "string \<Rightarrow> string" where
  "camelTail [] = []"
| "camelTail (c # cs) =
     (if lowerChar c = c then c # camelTail cs else CHR ''_'' # lowerChar c # camelTail cs)"

fun camelToSnake :: "string \<Rightarrow> string" where
  "camelToSnake [] = []"
| "camelToSnake (c # cs) = lowerChar c # camelTail cs"

fun unscopedTypeExpr :: "TypeExpr \<Rightarrow> string" where
  "unscopedTypeExpr (TypeExpr r ps) =
     (case r of Primitive p \<Rightarrow> p | TypeParam v \<Rightarrow> v | Reference sn \<Rightarrow> sn_name sn) @
     (if ps = [] then [] else ''<'' @ join '','' (map unscopedTypeExpr ps) @ ''>'')"

definition sampleExternals :: Externals where
  "sampleExternals = \<lparr>snakeCase = camelToSnake, typeExprToStringUnscoped = unscopedTypeExpr\<rparr>"

text \<open>The resolver that the loader builds for a list of modules.\<close>

definition resolverOf :: "Module list \<Rightarrow> DeclResolver" where
  "resolverOf modules =
     map_of (map (\<lambda>sd. (scopedName (sd_moduleName sd) (d_name (sd_decl sd)), sd))
               (forEachDecl modules))"

definition prim :: "string \<Rightarrow> TypeExpr" where
  "prim p = TypeExpr (Primitive p) []"

definition ref :: "string \<Rightarrow> string \<Rightarrow> TypeExpr list \<Rightarrow> TypeExpr" where
  "ref m n ps = TypeExpr (Reference (scopedName m n)) ps"

definition field :: "string \<Rightarrow> TypeExpr \<Rightarrow> Field" where
  "field n t = \<lparr>f_name = n, f_typeExpr = t, f_annotations = []\<rparr>"

definition commonModules :: "Module list" where
  "commonModules =
     [\<lparr>m_name = ''common.db'',
       m_decls = [\<lparr>d_name = ''DbKey'', d_type = DNewtype [''T''] (prim ''String''),
                   d_annotations = []\<rparr>]\<rparr>,
      \<lparr>m_name = ''common'',
       m_decls = [\<lparr>d_name = ''Instant'', d_type = DNewtype [] (prim ''Int64''),
                   d_annotations = []\<rparr>,
                  \<lparr>d_name = ''LocalDate'', d_type = DNewtype [] (prim ''String''),
                   d_annotations = []\<rparr>,
                  \<lparr>d_name = ''LocalDateTime'', d_type = DNewtype [] (prim ''String''),
                   d_annotations = []\<rparr>]\<rparr>]"

definition person :: Decl where
  "person =
     \<lparr>d_name = ''Person'',
      d_type = DStruct []
        [field ''email'' (ref ''app'' ''Email'' []),
         field ''nickName'' (ref ''sys.types'' ''Maybe'' [prim ''String'']),
         field ''joined'' (ref ''common'' ''Instant'' [])],
      d_annotations =
        [(DB_TABLE, JObject [(''withIdPrimaryKey'', JBool True),
                             (''indexes'', JArray [JArray [JString ''email'']]),
                             (''extraSql'', JArray [JString ''create extension pgcrypto;''])])]\<rparr>"

definition pet :: Decl where
  "pet =
     \<lparr>d_name = ''Pet'',
      d_type = DStruct []
        [field ''owner'' (ref ''common.db'' ''DbKey'' [ref ''app'' ''Person'' []]),
         field ''name'' (prim ''String'')],
      d_annotations = [(DB_TABLE, JObject [(''withPrimaryKey'', JArray [JString ''name''])])]\<rparr>"

definition colour :: Decl where
  "colour =
     \<lparr>d_name = ''Colour'',
      d_type = DUnion [] [field ''red'' (prim ''Void''), field ''green'' (prim ''Void'')],
      d_annotations = [(DB_TABLE, JObject [])]\<rparr>"

definition noteStruct :: Decl where
  "noteStruct =
     \<lparr>d_name = ''Note'', d_type = DStruct [] [field ''text'' (prim ''String'')],
      d_annotations = []\<rparr>"

definition appModule :: Module where
  "appModule =
     \<lparr>m_name = ''app'',
      m_decls =
        [pet,
         \<lparr>d_name = ''Email'', d_type = DType [] (prim ''String''), d_annotations = []\<rparr>,
         colour,
         noteStruct,
         person]\<rparr>"

definition sampleModules :: "Module list" where
  "sampleModules = commonModules @ [appModule]"

definition sampleResolver :: DeclResolver where
  "sampleResolver = resolverOf sampleModules"

text \<open>What the generator writes for the example, with the postgres profile.\<close>

definition sampleOutput :: "string list" where
  "sampleOutput =
     [''-- Schema auto-generated from adl modules: app\<newline>'',
      ''--\<newline>'',
      ''-- column comments show original ADL types\<newline>'',
      ''\<newline>'',
      ''create table person(\<newline>'',
      ''  id text not null,\<newline>'',
      ''  email text not null,                 -- Email\<newline>'',
      ''  nick_name text,                      -- Maybe<String>\<newline>'',
      ''  joined timestamp not null,           -- common.Instant\<newline>'',
      ''  primary key(id)\<newline>'',
      '');\<newline>'',
      ''\<newline>'',
      ''create table pet(\<newline>'',
      ''  owner text not null,                 -- common.db.DbKey<Person>\<newline>'',
      ''  name text not null,                  -- String\<newline>'',
      ''  primary key(name)\<newline>'',
      '');\<newline>'',
      ''\<newline>'',
      ''create index person_1_idx on person(email);\<newline>'',
      ''alter table pet add constraint pet_owner_fk foreign key (owner) references person(id);\<newline>'',
      ''\<newline>'',
      ''0\<newline>'']"

text \<open>An alias and a newtype that expand to each other.\<close>

definition cyclicResolver :: DeclResolver where
  "cyclicResolver =
     resolverOf
       [\<lparr>m_name = ''loop'',
         m_decls = [\<lparr>d_name = ''A'', d_type = DType [] (ref ''loop'' ''B'' []),
                     d_annotations = []\<rparr>,
                    \<lparr>d_name = ''B'', d_type = DNewtype [] (ref ''loop'' ''A'' []),
                     d_annotations = []\<rparr>]\<rparr>]"

text \<open>Two modules that each declare a table of the same name.\<close>

definition user :: Decl where
  "user =
     \<lparr>d_name = ''User'', d_type = DStruct [] [field ''name'' (prim ''String'')],
      d_annotations = [(DB_TABLE, JObject [])]\<rparr>"

definition twinModules :: "Module list" where
  "twinModules =
     [\<lparr>m_name = ''crm'', m_decls = [user]\<rparr>, \<lparr>m_name = ''billing'', m_decls = [user]\<rparr>]"

section \<open>Basic facts\<close>

lemma scopedNamesEqual_eq: "scopedNamesEqual a b = (a = b)"
  by (cases a; cases b) (auto simp: scopedNamesEqual_def)

lemmas name_defs = scopedName_def MAYBE_def DB_TABLE_def DB_COLUMN_NAME_def DB_KEY_def
  INSTANT_def LOCAL_DATE_def LOCAL_DATETIME_def

lemma rbind_ok_iff:
  "rbind m f = Some (Inr y) \<longleftrightarrow> (\<exists>x. m = Some (Inr x) \<and> f x = Some (Inr y))"
  by (auto simp: rbind_def split: option.splits sum.splits)

lemma rbind_okE:
  assumes "rbind m f = Some (Inr y)"
  obtains x where "m = Some (Inr x)" and "f x = Some (Inr y)"
  using assms by (auto simp: rbind_ok_iff)

section \<open>The mapper\<close>

text \<open>One unfolding of \<^const>\<open>getColumnType1\<close> on a reference that resolves.\<close>

lemma getColumnType1_reference:
  assumes "decodeTypeExpr typeExpr = Inr (DReference sn ps)" and "resolver sn = Some sdecl"
  shows "getColumnType1 resolver typeExpr dbProfile =
      (if sn = INSTANT then Some (Inr ''timestamp'')
       else if sn = LOCAL_DATE then Some (Inr ''date'')
       else if sn = LOCAL_DATETIME then Some (Inr ''timestamp'')
       else if isEnumUnion sdecl then Some (Inr (enumColumnType dbProfile))
       else (case expandReference resolver typeExpr of
               Inl e \<Rightarrow> Some (Inl e)
             | Inr None \<Rightarrow> Some (Inr (primColumnType dbProfile (kind (DReference sn ps))))
             | Inr (Some texpr2) \<Rightarrow> getColumnType1 resolver texpr2 dbProfile))"
  using assms by (subst getColumnType1.simps) (simp add: scopedNamesEqual_eq)

text \<open>
  Whatever \<^const>\<open>getColumnType1\<close> returns is one of the fixed temporal spellings, the enum
  column type or a value of the profile's primitive table.
\<close>

lemma getColumnType1_range:
  assumes "getColumnType1 r t p = Some (Inr s)"
  shows "s \<in> {''timestamp'', ''date'', enumColumnType p} \<union> range (primColumnType p)"
proof -
  have "\<forall>s. y = Inr s \<longrightarrow>
          s \<in> {''timestamp'', ''date'', enumColumnType p} \<union> range (primColumnType p)"
    if "getColumnType1 r t p = Some y" for y
  proof (rule getColumnType1.raw_induct[where P = "\<lambda>r t p y. \<forall>s. y = Inr s \<longrightarrow>
          s \<in> {''timestamp'', ''date'', enumColumnType p} \<union> range (primColumnType p)",
        OF _ that], goal_cases)
    case (1 f r t p y)
    from 1(2) show ?case
      by (auto split: sum.splits DecodedTypeExpr.splits option.splits if_splits dest: 1(1))
  qed
  with assms show ?thesis by blast
qed

lemma postgresPrim_cases:
  "postgresPrim k \<in> {''text'', ''boolean'', ''json'', ''smallint'', ''integer'', ''bigint'',
     ''real'', ''double precision''}"
  by (simp add: postgresPrim_def)

lemma postgres2Prim_cases:
  "postgres2Prim k \<in> {''text'', ''boolean'', ''jsonb'', ''smallint'', ''integer'', ''bigint'',
     ''real'', ''double precision''}"
  by (simp add: postgres2Prim_def)

lemma mssql2Prim_cases:
  "mssql2Prim k \<in> {''nvarchar(max)'', ''smallint'', ''int'', ''bigint'', ''float(24)'',
     ''float(53)'', ''bit''}"
  by (simp add: mssql2Prim_def)

lemma shipped_no_qualifier:
  assumes "p \<in> set shippedProfiles" "getColumnType1 r t p = Some (Inr s)"
  shows "\<not> suffix '' not null'' s"
proof -
  from getColumnType1_range[OF assms(2)]
  consider "s = ''timestamp''" | "s = ''date''" | "s = enumColumnType p"
    | k where "s = primColumnType p k"
    by auto
  then show ?thesis
  proof cases
    case 1
    then show ?thesis by (simp add: suffix_to_prefix)
  next
    case 2
    then show ?thesis by (simp add: suffix_to_prefix)
  next
    case 3
    with assms(1) show ?thesis
      by (auto simp: shippedProfiles_def postgresDbProfile_def postgres2DbProfile_def
            mssql2DbProfile_def suffix_to_prefix)
  next
    case 4
    from assms(1) consider "p = postgresDbProfile" | "p = postgres2DbProfile"
      | "p = mssql2DbProfile"
      by (auto simp: shippedProfiles_def)
    then show ?thesis
    proof cases
      case 1
      with 4 postgresPrim_cases[of k] show ?thesis
        by (auto simp: postgresDbProfile_def suffix_to_prefix)
    next
      case 2
      with 4 postgres2Prim_cases[of k] show ?thesis
        by (auto simp: postgres2DbProfile_def suffix_to_prefix)
    next
      case 3
      with 4 mssql2Prim_cases[of k] show ?thesis
        by (auto simp: mssql2DbProfile_def suffix_to_prefix)
    qed
  qed
qed

text \<open>Termination: every run returns when the expansion relation is well-founded.\<close>

lemma getColumnType1_returns:
  assumes "wf (aliasChain resolver)"
  shows "\<exists>res. getColumnType1 resolver typeExpr dbProfile = Some res"
  using assms
proof (induction typeExpr rule: wf_induct_rule)
  case (less t)
  show ?case
  proof (cases "expandReference resolver t")
    case (Inl e)
    then show ?thesis
      by (subst getColumnType1.simps) (simp split: sum.split DecodedTypeExpr.split option.split)
  next
    case (Inr o2)
    show ?thesis
    proof (cases o2)
      case None
      with Inr show ?thesis
        by (subst getColumnType1.simps)
           (simp split: sum.split DecodedTypeExpr.split option.split)
    next
      case (Some t2)
      with Inr have "(t2, t) \<in> aliasChain resolver"
        by (simp add: aliasChain_def)
      from less.IH[OF this] obtain res where "getColumnType1 resolver t2 dbProfile = Some res"
        by blast
      with Inr Some show ?thesis
        by (subst getColumnType1.simps)
           (simp split: sum.split DecodedTypeExpr.split option.split)
    qed
  qed
qed

text \<open>The example graph has no endless chain: every alias and newtype of it is a primitive.\<close>

lemma sample_bodies:
  assumes "sampleResolver sn = Some sdecl"
  shows "case d_type (sd_decl sdecl) of
           DType tps body \<Rightarrow> typeRef body = Primitive ''String'' \<and> parameters body = []
         | DNewtype tps body \<Rightarrow>
             (typeRef body = Primitive ''String'' \<or> typeRef body = Primitive ''Int64'') \<and>
             parameters body = []
         | _ \<Rightarrow> True"
proof -
  from assms have "sdecl \<in> set (forEachDecl sampleModules)"
    unfolding sampleResolver_def resolverOf_def by (auto dest!: map_of_SomeD)
  then show ?thesis
    by (auto simp: forEachDecl_def sampleModules_def commonModules_def appModule_def
          person_def pet_def colour_def noteStruct_def prim_def)
qed

lemma sample_expansion:
  assumes "expandReference sampleResolver t = Inr (Some t2)"
  shows "(\<exists>sn. typeRef t = Reference sn) \<and> (\<exists>p. typeRef t2 = Primitive p)"
proof (cases "typeRef t")
  case (Primitive p)
  with assms show ?thesis
    by (simp add: expandReference_def expandTypeAlias_def expandNewType_def)
next
  case (TypeParam v)
  with assms show ?thesis
    by (simp add: expandReference_def expandTypeAlias_def expandNewType_def)
next
  case (Reference sn)
  show ?thesis
  proof (cases "sampleResolver sn")
    case None
    with Reference assms show ?thesis
      by (simp add: expandReference_def expandTypeAlias_def)
  next
    case (Some sdecl)
    have sub: "typeRef (substituteTypeVariables m body) = typeRef body"
      if "\<exists>p. typeRef body = Primitive p" for m body
      using that by (cases body) auto
    from sample_bodies[OF Some] Reference Some assms sub show ?thesis
      by (cases "d_type (sd_decl sdecl)")
         (auto simp: expandReference_def expandTypeAlias_def expandNewType_def)
  qed
qed

lemma sample_acyclic: "wf (aliasChain sampleResolver)"
proof (rule wf_subset)
  show "wf (measure (\<lambda>t. case typeRef t of Reference sn \<Rightarrow> Suc 0 | _ \<Rightarrow> 0))"
    by simp
  show "aliasChain sampleResolver \<subseteq>
        measure (\<lambda>t. case typeRef t of Reference sn \<Rightarrow> Suc 0 | _ \<Rightarrow> 0)"
    by (auto simp: aliasChain_def dest!: sample_expansion)
qed

text \<open>
  Divergence: a set of type expressions on each of which \<^const>\<open>getColumnType1\<close> calls itself
  on another member of the set yields no result.
\<close>

lemma getColumnType1_recurses:
  assumes "recursesOn resolver typeExpr = Some texpr2"
  shows "getColumnType1 resolver typeExpr dbProfile = getColumnType1 resolver texpr2 dbProfile"
  using assms
  by (subst getColumnType1.simps)
     (auto simp: recursesOn_def split: sum.splits DecodedTypeExpr.splits option.splits if_splits)

lemma closed_recursion_diverges:
  assumes closed: "\<forall>t\<in>S. \<exists>t2\<in>S. recursesOn resolver t = Some t2"
    and mem: "typeExpr \<in> S"
  shows "getColumnType1 resolver typeExpr dbProfile = None"
proof -
  have "\<not> (r = resolver \<and> t \<in> S)" if "getColumnType1 r t p = Some y" for r t p y
  proof (rule getColumnType1.raw_induct[where P = "\<lambda>r t p y. \<not> (r = resolver \<and> t \<in> S)",
        OF _ that], goal_cases)
    case (1 f r t p y)
    show ?case
    proof
      assume a: "r = resolver \<and> t \<in> S"
      with closed obtain t2 where t2: "t2 \<in> S" "recursesOn resolver t = Some t2"
        by blast
      from 1(2) a t2(2) have "f resolver t2 p = Some y"
        by (auto simp: recursesOn_def
              split: sum.splits DecodedTypeExpr.splits option.splits if_splits)
      from 1(1)[OF this] t2(1) show False by simp
    qed
  qed
  with mem show ?thesis
    by (cases "getColumnType1 resolver typeExpr dbProfile") auto
qed

lemma cyclic_closed:
  "\<forall>t\<in>{ref ''loop'' ''A'' [], ref ''loop'' ''B'' []}.
     \<exists>t2\<in>{ref ''loop'' ''A'' [], ref ''loop'' ''B'' []}. recursesOn cyclicResolver t = Some t2"
proof -
  have "recursesOn cyclicResolver (ref ''loop'' ''A'' []) = Some (ref ''loop'' ''B'' [])"
    and "recursesOn cyclicResolver (ref ''loop'' ''B'' []) = Some (ref ''loop'' ''A'' [])"
    by code_simp+
  then show ?thesis by simp
qed

text \<open>
  The run on a stack of \<open>n\<close> frames and the function itself: a step of the recursion takes
  one frame; a run that the stack does not stop gives what the function gives; and a
  larger stack changes nothing for it.
\<close>

lemma decode_no_RangeError:
  "decodeTypeExpr t \<noteq> Inl RangeError" "decodeTypeExprs ts \<noteq> Inl RangeError"
  by (induction t and ts rule: decodeTypeExpr_decodeTypeExprs.induct)
     (auto split: sum.splits list.splits)

lemma expandReference_no_RangeError: "expandReference resolver t \<noteq> Inl RangeError"
  by (auto simp: expandReference_def expandTypeAlias_def expandNewType_def
        split: sum.splits option.splits TypeRef.splits DeclType.splits)

lemma stack_recurses:
  assumes "recursesOn resolver typeExpr = Some texpr2"
  shows "getColumnType1_stack (Suc n) resolver typeExpr dbProfile =
         getColumnType1_stack n resolver texpr2 dbProfile"
  using assms
  by (auto simp: recursesOn_def split: sum.splits DecodedTypeExpr.splits option.splits if_splits)

lemma stack_final:
  assumes "recursesOn resolver typeExpr = None"
  shows "getColumnType1 resolver typeExpr dbProfile =
           Some (getColumnType1_stack (Suc n) resolver typeExpr dbProfile) \<and>
         getColumnType1_stack (Suc n) resolver typeExpr dbProfile \<noteq> Inl RangeError"
proof -
  have d: "decodeTypeExpr typeExpr \<noteq> Inl RangeError"
    and e: "expandReference resolver typeExpr \<noteq> Inl RangeError"
    by (rule decode_no_RangeError expandReference_no_RangeError)+
  from assms d e show ?thesis
    by (subst getColumnType1.simps)
       (auto simp: recursesOn_def
          split: sum.splits DecodedTypeExpr.splits option.splits if_splits)
qed

lemma stack_enough:
  assumes "wf (aliasChain resolver)"
  shows "\<exists>n0. \<forall>n\<ge>n0. getColumnType1 resolver typeExpr dbProfile =
             Some (getColumnType1_stack n resolver typeExpr dbProfile) \<and>
           getColumnType1_stack n resolver typeExpr dbProfile \<noteq> Inl RangeError"
  using assms
proof (induction typeExpr rule: wf_induct_rule)
  case (less t)
  show ?case
  proof (cases "recursesOn resolver t")
    case None
    have "\<forall>n\<ge>Suc 0. getColumnType1 resolver t dbProfile =
             Some (getColumnType1_stack n resolver t dbProfile) \<and>
           getColumnType1_stack n resolver t dbProfile \<noteq> Inl RangeError"
    proof (intro allI impI)
      fix n :: nat
      assume "Suc 0 \<le> n"
      then obtain m where "n = Suc m" by (cases n) auto
      with stack_final[OF None, of dbProfile m]
      show "getColumnType1 resolver t dbProfile =
             Some (getColumnType1_stack n resolver t dbProfile) \<and>
           getColumnType1_stack n resolver t dbProfile \<noteq> Inl RangeError"
        by simp
    qed
    then show ?thesis by blast
  next
    case (Some t2)
    then have "expandReference resolver t = Inr (Some t2)"
      by (auto simp: recursesOn_def
            split: sum.splits DecodedTypeExpr.splits option.splits if_splits)
    then have "(t2, t) \<in> aliasChain resolver"
      by (simp add: aliasChain_def)
    from less.IH[OF this] obtain n0 where
      n0: "\<forall>n\<ge>n0. getColumnType1 resolver t2 dbProfile =
             Some (getColumnType1_stack n resolver t2 dbProfile) \<and>
           getColumnType1_stack n resolver t2 dbProfile \<noteq> Inl RangeError"
      by blast
    have "\<forall>n\<ge>Suc n0. getColumnType1 resolver t dbProfile =
             Some (getColumnType1_stack n resolver t dbProfile) \<and>
           getColumnType1_stack n resolver t dbProfile \<noteq> Inl RangeError"
    proof (intro allI impI)
      fix n :: nat
      assume "Suc n0 \<le> n"
      then obtain m where m: "n = Suc m" "n0 \<le> m" by (cases n) auto
      from n0 m(2) have "getColumnType1 resolver t2 dbProfile =
             Some (getColumnType1_stack m resolver t2 dbProfile) \<and>
           getColumnType1_stack m resolver t2 dbProfile \<noteq> Inl RangeError"
        by blast
      then show "getColumnType1 resolver t dbProfile =
             Some (getColumnType1_stack n resolver t dbProfile) \<and>
           getColumnType1_stack n resolver t dbProfile \<noteq> Inl RangeError"
        unfolding m(1) stack_recurses[OF Some] getColumnType1_recurses[OF Some] .
    qed
    then show ?thesis by blast
  qed
qed

lemma closed_recursion_exhausts_stack:
  assumes closed: "\<forall>t\<in>S. \<exists>t2\<in>S. recursesOn resolver t = Some t2"
    and mem: "typeExpr \<in> S"
  shows "getColumnType1_stack n resolver typeExpr dbProfile = Inl RangeError"
  using mem
proof (induction n arbitrary: typeExpr)
  case 0
  show ?case by simp
next
  case (Suc n)
  with closed obtain t2 where "t2 \<in> S" "recursesOn resolver typeExpr = Some t2"
    by blast
  with Suc.IH[of t2] show ?case
    by (simp only: stack_recurses)
qed

section \<open>The generator\<close>

lemma dbTableOf_struct:
  "dbTableOf ext sd = Some t \<Longrightarrow> isStruct (sd_decl sd) \<and> dbt_scopedDecl t = sd"
  by (auto simp: dbTableOf_def isStruct_def split: DeclType.splits option.splits if_splits)

lemma map_filter_structs:
  "List.map_filter (dbTableOf ext) (filter (\<lambda>sd. isStruct (sd_decl sd)) sds) =
   List.map_filter (dbTableOf ext) sds"
proof (induction sds)
  case Nil
  show ?case by simp
next
  case (Cons sd sds)
  then show ?case
    by (cases "dbTableOf ext sd") (auto simp: List.map_filter_simps dest: dbTableOf_struct)
qed

lemma forEachDecl_structsOnly:
  "forEachDecl (map structsOnly modules) =
   filter (\<lambda>sd. isStruct (sd_decl sd)) (forEachDecl modules)"
  by (induction modules) (simp_all add: forEachDecl_def structsOnly_def filter_map comp_def)

lemma findDbTables_structsOnly:
  "findDbTables ext (map structsOnly modules) = findDbTables ext modules"
  by (simp add: findDbTables_def forEachDecl_structsOnly map_filter_structs)

lemma findDbTables_structs:
  "list_all (\<lambda>t. isStruct (sd_decl (dbt_scopedDecl t))) (findDbTables ext modules)"
proof -
  have "isStruct (sd_decl (dbt_scopedDecl t))"
    if "t \<in> set (List.map_filter (dbTableOf ext) sds)" for t sds
  proof -
    from that obtain sd where "dbTableOf ext sd = Some t"
      by (auto simp: List.map_filter_def)
    then show ?thesis by (auto dest: dbTableOf_struct)
  qed
  then show ?thesis
    by (auto simp: list_all_iff findDbTables_def)
qed

text \<open>The tables are sorted by name, and the names do not depend on the order of declaration.\<close>

lemma findDbTables_sorted: "sorted (map dbt_name (findDbTables ext modules))"
  by (simp add: findDbTables_def)

lemma map_sort_key: "map f (sort_key f xs) = sort (map f xs)"
  by (rule properties_for_sort[symmetric]) simp_all

lemma mset_map_filter:
  "mset (List.map_filter g xs) =
   image_mset (the \<circ> g) (filter_mset (\<lambda>x. g x \<noteq> None) (mset xs))"
  by (simp add: List.map_filter_def)

lemma findDbTables_names_perm:
  assumes "mset (forEachDecl modules') = mset (forEachDecl modules)"
  shows "map dbt_name (findDbTables ext modules') = map dbt_name (findDbTables ext modules)"
proof -
  have "mset (map dbt_name (List.map_filter (dbTableOf ext) (forEachDecl modules'))) =
        mset (map dbt_name (List.map_filter (dbTableOf ext) (forEachDecl modules)))"
    unfolding mset_map mset_map_filter assms ..
  then have "sort (map dbt_name (List.map_filter (dbTableOf ext) (forEachDecl modules'))) =
        sort (map dbt_name (List.map_filter (dbTableOf ext) (forEachDecl modules)))"
    by (metis properties_for_sort sorted_sort mset_sort)
  then show ?thesis by (simp add: findDbTables_def map_sort_key)
qed

text \<open>What the loops append to their accumulators.\<close>

lemma fieldsLoop_shape:
  assumes "fieldsLoop ext resolver dbProfile tname fs (ls, cs) = Some (Inr (ls', cs'))"
  shows "\<exists>ls2 fks. ls' = ls @ ls2 \<and> cs' = cs @ fks \<and>
           list_all (isForeignKeyStatement tname) fks"
  using assms
proof (induction fs arbitrary: ls cs)
  case Nil
  then show ?case by (simp add: ok_def)
next
  case (Cons f fs)
  from Cons.prems show ?case
    unfolding fieldsLoop.simps
  proof (elim rbind_okE, goal_cases)
    case (1 ct)
    from Cons.IH[OF 1(2)] obtain ls2 fks where
      r: "\<exists>l. ls' = (ls @ [l]) @ ls2"
         "cs' = (case fkey ct of None \<Rightarrow> cs
           | Some fk \<Rightarrow> cs @ [foreignKeyStatement tname (getColumnName ext f) fk]) @ fks"
         "list_all (isForeignKeyStatement tname) fks"
      by blast
    from r(1) obtain l where l: "ls' = ls @ (l # ls2)" by auto
    show ?case
    proof (cases "fkey ct")
      case None
      with r l show ?thesis by auto
    next
      case (Some fk)
      with r have "cs' = cs @ (foreignKeyStatement tname (getColumnName ext f) fk # fks)"
        "list_all (isForeignKeyStatement tname)
           (foreignKeyStatement tname (getColumnName ext f) fk # fks)"
        by (auto simp: isForeignKeyStatement_def)
      with l show ?thesis by blast
    qed
  qed
qed

lemma renderLines_indented: "list_all (prefix ''  '') (renderLines ls)"
  by (induction ls) simp_all

lemma tableStep_shape:
  assumes "tableStep ext resolver dbProfile t (w, c, x) = Some (Inr (w', c', x'))"
  shows "\<exists>block group extra. w' = w @ block \<and> c' = c @ group \<and> x' = x @ extra \<and>
           tableBlock t block \<and> tableConstraints ext t group"
proof -
  define lines0 where "lines0 =
     (if annotationProperty (dbt_ann t) ''withIdPrimaryKey'' \<noteq> None
      then [\<lparr>code = ''id '' @ idColumnType dbProfile @ '' not null'', comment = None\<rparr>]
      else [])"
  from assms have "\<exists>idx uq extra lines1 constraints1 ls.
      readStringGroups (dbt_ann t) ''indexes'' = Inr idx \<and>
      readStringGroups (dbt_ann t) ''uniquenessConstraints'' = Inr uq \<and>
      fieldsLoop ext resolver dbProfile (dbt_name t) (dbt_struct t) (lines0, c) =
        Some (Inr (lines1, constraints1)) \<and>
      c' = (constraints1 @ map (indexStatement ext t) (enumerate 0 idx)) @
             map (uniquenessStatement ext t) (enumerate 0 uq) \<and>
      x' = x @ extra \<and>
      w' = w @ [newline, ''create table '' @ dbt_name t @ ''('' @ newline] @
              renderLines ls @ ['');'' @ newline]"
    unfolding tableStep_def lines0_def prod.case rbind_ok_iff lift_def ok_def Let_def
    by (elim exE conjE) (simp split: prod.splits, blast)
  then obtain idx uq extra lines1 constraints1 ls where
    idx: "readStringGroups (dbt_ann t) ''indexes'' = Inr idx" and
    uq: "readStringGroups (dbt_ann t) ''uniquenessConstraints'' = Inr uq" and
    fl: "fieldsLoop ext resolver dbProfile (dbt_name t) (dbt_struct t) (lines0, c) =
        Some (Inr (lines1, constraints1))" and
    c': "c' = (constraints1 @ map (indexStatement ext t) (enumerate 0 idx)) @
             map (uniquenessStatement ext t) (enumerate 0 uq)" and
    x': "x' = x @ extra" and
    w': "w' = w @ [newline, ''create table '' @ dbt_name t @ ''('' @ newline] @
              renderLines ls @ ['');'' @ newline]"
    by blast
  from fieldsLoop_shape[OF fl] obtain fks where
    fks: "constraints1 = c @ fks" "list_all (isForeignKeyStatement (dbt_name t)) fks"
    by blast
  from w' have "w' = w @ ([newline, ''create table '' @ dbt_name t @ ''('' @ newline] @
              renderLines ls @ ['');'' @ newline])"
    by simp
  moreover have "tableBlock t ([newline, ''create table '' @ dbt_name t @ ''('' @ newline] @
              renderLines ls @ ['');'' @ newline])"
    unfolding tableBlock_def using renderLines_indented by blast
  moreover have "c' = c @ (fks @ map (indexStatement ext t) (enumerate 0 idx) @
             map (uniquenessStatement ext t) (enumerate 0 uq))"
    using c' fks by simp
  moreover have "tableConstraints ext t (fks @ map (indexStatement ext t) (enumerate 0 idx) @
             map (uniquenessStatement ext t) (enumerate 0 uq))"
    unfolding tableConstraints_def using fks idx uq by blast
  ultimately show ?thesis using x' by blast
qed

lemma tablesLoop_shape:
  assumes "tablesLoop ext resolver dbProfile ts (w, c, x) = Some (Inr (w', c', x'))"
  shows "\<exists>blocks groups extra. w' = w @ concat blocks \<and> c' = c @ concat groups \<and>
           x' = x @ extra \<and> list_all2 tableBlock ts blocks \<and>
           list_all2 (tableConstraints ext) ts groups"
  using assms
proof (induction ts arbitrary: w c x)
  case Nil
  then show ?case by (simp add: ok_def)
next
  case (Cons t ts)
  from Cons.prems obtain w1 c1 x1 where
    s1: "tableStep ext resolver dbProfile t (w, c, x) = Some (Inr (w1, c1, x1))" and
    s2: "tablesLoop ext resolver dbProfile ts (w1, c1, x1) = Some (Inr (w', c', x'))"
    by (auto simp: rbind_ok_iff)
  from tableStep_shape[OF s1] obtain block group extra where
    b: "w1 = w @ block" "c1 = c @ group" "x1 = x @ extra" "tableBlock t block"
       "tableConstraints ext t group"
    by blast
  from Cons.IH[OF s2] obtain blocks groups extra' where
    r: "w' = w1 @ concat blocks" "c' = c1 @ concat groups" "x' = x1 @ extra'"
       "list_all2 tableBlock ts blocks" "list_all2 (tableConstraints ext) ts groups"
    by blast
  have "w' = w @ concat (block # blocks)" "c' = c @ concat (group # groups)"
    "x' = x @ (extra @ extra')"
    "list_all2 tableBlock (t # ts) (block # blocks)"
    "list_all2 (tableConstraints ext) (t # ts) (group # groups)"
    using b r by simp_all
  then show ?case by blast
qed

lemma generate_shape:
  assumes "generateSqlSchema ext modules resolver dbProfile = Some (Inr out)"
  shows "\<exists>blocks groups (x :: string list).
           out = header (findDbTables ext modules) @ concat blocks @
                 (if concat groups = [] then [] else [newline]) @
                 map (\<lambda>c. c @ newline) (concat groups) @
                 (if x = [] then [] else [newline]) @
                 map (\<lambda>sql. sql @ newline) (arrayKeys x) \<and>
           list_all2 tableBlock (findDbTables ext modules) blocks \<and>
           list_all2 (tableConstraints ext) (findDbTables ext modules) groups"
proof -
  from assms obtain w c x where
    l: "tablesLoop ext resolver dbProfile (findDbTables ext modules)
          (header (findDbTables ext modules), [], []) = Some (Inr (w, c, x))" and
    out: "out = w @ trailer c x"
    by (auto simp: generateSqlSchema_def rbind_ok_iff ok_def Let_def)
  from tablesLoop_shape[OF l] obtain blocks groups where
    r: "w = header (findDbTables ext modules) @ concat blocks" "c = concat groups"
       "list_all2 tableBlock (findDbTables ext modules) blocks"
       "list_all2 (tableConstraints ext) (findDbTables ext modules) groups"
    by auto
  have "out = header (findDbTables ext modules) @ concat blocks @
                 (if concat groups = [] then [] else [newline]) @
                 map (\<lambda>c. c @ newline) (concat groups) @
                 (if x = [] then [] else [newline]) @ map (\<lambda>sql. sql @ newline) (arrayKeys x)"
    using out r(1,2) by (simp add: trailer_def)
  with r(3,4) show ?thesis by (intro exI conjI) assumption+
qed

text \<open>Which of the written strings open a \<^verbatim>\<open>create table\<close> statement.\<close>

lemma natToString_digits: "set (natToString n) \<subseteq> set ''0123456789''"
proof (induction n rule: natToString.induct)
  case (1 n)
  have d: "''0123456789'' ! k \<in> set ''0123456789''" if "k < 10" for k
    using that by (intro nth_mem) simp
  show ?case
  proof (cases "n < 10")
    case True
    with d[of n] show ?thesis by (subst natToString.simps) simp
  next
    case False
    with 1 d[of "n mod 10"] show ?thesis by (subst natToString.simps) simp
  qed
qed

lemma arrayKeys_no_create:
  "filter isCreateTable (map (\<lambda>sql. sql @ newline) (arrayKeys x)) = []"
proof -
  have "\<not> isCreateTable (natToString n @ newline)" for n
  proof
    assume "isCreateTable (natToString n @ newline)"
    then have "prefix ''create table '' (natToString n @ newline)"
      by (simp add: isCreateTable_def)
    then have "CHR ''c'' \<in> set (natToString n @ newline)"
      by (auto simp: prefix_def dest!: arg_cong[where f = set])
    with natToString_digits[of n] show False by (auto simp: newline_def)
  qed
  then show ?thesis by (auto simp: arrayKeys_def filter_empty_conv)
qed

lemma header_no_create: "filter isCreateTable (header ts) = []"
  by (simp add: header_def isCreateTable_def)

lemma block_create:
  assumes "tableBlock t block"
  shows "filter isCreateTable block = [''create table '' @ dbt_name t @ ''('' @ newline]"
proof -
  from assms obtain cols where
    b: "block = [newline, ''create table '' @ dbt_name t @ ''('' @ newline] @ cols @
                ['');'' @ newline]"
    and c: "list_all (prefix ''  '') cols"
    by (auto simp: tableBlock_def)
  have "\<not> isCreateTable s" if "prefix ''  '' s" for s
    using that by (auto simp: isCreateTable_def prefix_def)
  with c have "filter isCreateTable cols = []"
    by (auto simp: filter_empty_conv list_all_iff)
  with b show ?thesis
    by (simp add: isCreateTable_def newline_def)
qed

lemma blocks_create:
  assumes "list_all2 tableBlock ts blocks"
  shows "filter isCreateTable (concat blocks) =
         map (\<lambda>t. ''create table '' @ dbt_name t @ ''('' @ newline) ts"
  using assms by (induction rule: list_all2_induct) (simp_all add: block_create)

lemma group_no_create:
  assumes "tableConstraints ext t g"
  shows "filter isCreateTable (map (\<lambda>c. c @ newline) g) = []"
proof -
  have "\<not> isCreateTable (c @ newline)" if "c \<in> set g" for c
  proof -
    from assms that consider "isForeignKeyStatement (dbt_name t) c"
      | ig where "c = indexStatement ext t ig" | ig where "c = uniquenessStatement ext t ig"
      by (auto simp: tableConstraints_def list_all_iff)
    then show ?thesis
      by cases (auto simp: isForeignKeyStatement_def foreignKeyStatement_def indexStatement_def
          uniquenessStatement_def isCreateTable_def)
  qed
  then show ?thesis by (auto simp: filter_empty_conv)
qed

lemma groups_no_create:
  assumes "list_all2 (tableConstraints ext) ts groups"
  shows "filter isCreateTable (map (\<lambda>c. c @ newline) (concat groups)) = []"
  using assms by (induction rule: list_all2_induct) (simp_all add: group_no_create)

text \<open>The run of the generator on the example.\<close>

lemma sample_run:
  "generateSqlSchema sampleExternals sampleModules sampleResolver postgresDbProfile =
   Some (Inr sampleOutput)"
  by code_simp

text \<open>Which declarations become tables.\<close>

lemma dbTableOf_iff:
  "dbTableOf ext sd \<noteq> None \<longleftrightarrow> isStruct (sd_decl sd) \<and> tableAnnotated sd"
  by (auto simp: dbTableOf_def isStruct_def tableAnnotated_def
        split: DeclType.splits option.splits if_splits)

lemma findDbTables_scopedDecls:
  "set (map dbt_scopedDecl (findDbTables ext modules)) =
   {sd \<in> set (forEachDecl modules). isStruct (sd_decl sd) \<and> tableAnnotated sd}"
proof (intro set_eqI iffI)
  fix sd
  assume "sd \<in> set (map dbt_scopedDecl (findDbTables ext modules))"
  then obtain sd' t where
    t: "sd' \<in> set (forEachDecl modules)" "dbTableOf ext sd' = Some t" "sd = dbt_scopedDecl t"
    by (auto simp: findDbTables_def List.map_filter_def)
  from dbTableOf_struct[OF t(2)] t(3) have "sd = sd'" by simp
  with t dbTableOf_iff[of ext sd']
  show "sd \<in> {sd \<in> set (forEachDecl modules). isStruct (sd_decl sd) \<and> tableAnnotated sd}"
    by simp
next
  fix sd
  assume "sd \<in> {sd \<in> set (forEachDecl modules). isStruct (sd_decl sd) \<and> tableAnnotated sd}"
  with dbTableOf_iff[of ext sd]
  have m: "sd \<in> set (forEachDecl modules)" and "dbTableOf ext sd \<noteq> None"
    by blast+
  then obtain t where t: "dbTableOf ext sd = Some t" by auto
  from dbTableOf_struct[OF t] have "dbt_scopedDecl t = sd" by simp
  moreover from m t have "t \<in> set (findDbTables ext modules)"
    by (force simp: findDbTables_def List.map_filter_def)
  ultimately show "sd \<in> set (map dbt_scopedDecl (findDbTables ext modules))"
    by force
qed

section \<open>The claims\<close>

text \<open>
  C1. When the decoded shape of a field's type expression is a nullable wrapper (the kind
  Nullable, or a reference to \<open>sys.types.Maybe\<close>), \<^const>\<open>getColumnType\<close> returns the column
  type of the first type parameter with no qualifier appended, and the foreign-key target
  of that parameter; with the shipped profiles the column type then never ends in
  \<open>not null\<close>. For every other type expression it returns the column type of the expression
  with \<open>not null\<close> appended, and the foreign-key target of the expression itself. The two
  are computed independently of each other.
\<close>

theorem getColumnType_nullability:
  assumes "decodeTypeExpr typeExpr = Inr dtype"
  shows "(isNullableWrapper dtype \<longrightarrow>
            (\<forall>p0 ps. parameters typeExpr = p0 # ps \<longrightarrow>
               (getColumnType ext resolver typeExpr dbProfile = Some (Inr c) \<longleftrightarrow>
                  getColumnType1 resolver p0 dbProfile = Some (Inr (sqltype c)) \<and>
                  getForeignKeyRef ext resolver p0 = Inr (fkey c)) \<and>
               (dbProfile \<in> set shippedProfiles \<and>
                getColumnType ext resolver typeExpr dbProfile = Some (Inr c) \<longrightarrow>
                  \<not> suffix '' not null'' (sqltype c)))) \<and>
         (\<not> isNullableWrapper dtype \<longrightarrow>
            (getColumnType ext resolver typeExpr dbProfile = Some (Inr c) \<longleftrightarrow>
               (\<exists>s. getColumnType1 resolver typeExpr dbProfile = Some (Inr s) \<and>
                    sqltype c = s @ '' not null'') \<and>
               getForeignKeyRef ext resolver typeExpr = Inr (fkey c)))"
proof (intro conjI impI allI)
  fix p0 ps
  assume n: "isNullableWrapper dtype" and ps: "parameters typeExpr = p0 # ps"
  show iff: "getColumnType ext resolver typeExpr dbProfile = Some (Inr c) \<longleftrightarrow>
      getColumnType1 resolver p0 dbProfile = Some (Inr (sqltype c)) \<and>
      getForeignKeyRef ext resolver p0 = Inr (fkey c)"
    using assms n ps
    by (cases c) (auto simp: getColumnType_def rbind_ok_iff lift_def ok_def)
  assume "dbProfile \<in> set shippedProfiles \<and>
    getColumnType ext resolver typeExpr dbProfile = Some (Inr c)"
  with iff show "\<not> suffix '' not null'' (sqltype c)"
    using shipped_no_qualifier by blast
next
  assume n: "\<not> isNullableWrapper dtype"
  show "getColumnType ext resolver typeExpr dbProfile = Some (Inr c) \<longleftrightarrow>
      (\<exists>s. getColumnType1 resolver typeExpr dbProfile = Some (Inr s) \<and>
           sqltype c = s @ '' not null'') \<and>
      getForeignKeyRef ext resolver typeExpr = Inr (fkey c)"
    using assms n
    by (cases c) (auto simp: getColumnType_def rbind_ok_iff lift_def ok_def)
qed

text \<open>
  The witness: a nullable foreign key \<open>Maybe<DbKey<Person>>\<close> gives a column that is
  nullable and has the foreign-key target; the foreign key \<open>DbKey<Person>\<close> itself gives a
  column that is not nullable and has the same target.
\<close>

theorem getColumnType_nullability_witness:
  "getColumnType sampleExternals sampleResolver
     (ref ''sys.types'' ''Maybe'' [ref ''common.db'' ''DbKey'' [ref ''app'' ''Person'' []]])
     postgresDbProfile =
     Some (Inr \<lparr>sqltype = ''text'',
                fkey = Some \<lparr>fk_table = ''person'', fk_column = ''id''\<rparr>\<rparr>) \<and>
   \<not> suffix '' not null'' ''text'' \<and>
   getColumnType sampleExternals sampleResolver
     (ref ''common.db'' ''DbKey'' [ref ''app'' ''Person'' []]) postgresDbProfile =
     Some (Inr \<lparr>sqltype = ''text not null'',
                fkey = Some \<lparr>fk_table = ''person'', fk_column = ''id''\<rparr>\<rparr>)"
proof -
  let ?key = "ref ''common.db'' ''DbKey'' [ref ''app'' ''Person'' []]"
  let ?maybe = "ref ''sys.types'' ''Maybe'' [?key]"
  let ?fk = "Some \<lparr>fk_table = ''person'', fk_column = ''id''\<rparr>"
  let ?c1 = "\<lparr>sqltype = ''text'', fkey = ?fk\<rparr>"
  let ?c2 = "\<lparr>sqltype = ''text not null'', fkey = ?fk\<rparr>"
  let ?dkey = "DReference DB_KEY [DReference (scopedName ''app'' ''Person'') []]"
  have d1: "decodeTypeExpr ?maybe = Inr (DReference MAYBE [?dkey])"
    and d2: "decodeTypeExpr ?key = Inr ?dkey"
    by code_simp+
  have n1: "isNullableWrapper (DReference MAYBE [?dkey])" and n2: "\<not> isNullableWrapper ?dkey"
    by code_simp+
  have ps: "parameters ?maybe = ?key # []"
    by (simp add: ref_def)
  have s: "getColumnType1 sampleResolver ?key postgresDbProfile = Some (Inr ''text'')"
    and f: "getForeignKeyRef sampleExternals sampleResolver ?key = Inr ?fk"
    by code_simp+
  have p: "postgresDbProfile \<in> set shippedProfiles"
    by (simp add: shippedProfiles_def)
  have a: "getColumnType sampleExternals sampleResolver ?maybe postgresDbProfile =
      Some (Inr ?c1)"
    using getColumnType_nullability[OF d1, of sampleExternals sampleResolver
        postgresDbProfile ?c1] n1 ps s f
    by simp
  have b: "\<not> suffix '' not null'' ''text''"
    using getColumnType_nullability[OF d1, of sampleExternals sampleResolver
        postgresDbProfile ?c1] n1 ps p a
    by simp
  have c: "getColumnType sampleExternals sampleResolver ?key postgresDbProfile =
      Some (Inr ?c2)"
    using getColumnType_nullability[OF d2, of sampleExternals sampleResolver
        postgresDbProfile ?c2] n2 s f
    by simp
  from a b c show ?thesis by blast
qed

text \<open>
  C2. For every inner type expression \<open>T\<close>, the dedicated nullable wrapper applied to \<open>T\<close>
  and the generic wrapper \<open>sys.types.Maybe\<close> applied to \<open>T\<close> are mapped to the same result:
  the same column type and the same foreign-key target, or the same failure.
\<close>

theorem nullable_maybe_uniform:
  "getColumnType ext resolver (TypeExpr (Primitive ''Nullable'') [T]) dbProfile =
   getColumnType ext resolver (TypeExpr (Reference MAYBE) [T]) dbProfile"
  by (cases "decodeTypeExpr T")
     (simp_all add: getColumnType_def isNullableWrapper_def scopedNamesEqual_eq throw_def)

text \<open>
  C3, as the code has it. \<^const>\<open>getForeignKeyRef\<close> returns a foreign-key target exactly when
  the decoded type expression is a reference to \<open>common.db.DbKey\<close> whose first type
  parameter is a reference that the resolver resolves, whether or not the declaration it
  resolves to carries the table annotation; the target is then the table name derived
  for that declaration, with the column \<open>id\<close>.
\<close>

theorem getForeignKeyRef_iff:
  "getForeignKeyRef ext resolver typeExpr = Inr (Some fk) \<longleftrightarrow>
     (\<exists>sn0 ps0 ps sdecl.
        decodeTypeExpr typeExpr = Inr (DReference DB_KEY (DReference sn0 ps0 # ps)) \<and>
        resolver sn0 = Some sdecl \<and>
        fk = \<lparr>fk_table = getTableName ext sdecl, fk_column = ''id''\<rparr>)"
  by (auto simp: getForeignKeyRef_def scopedNamesEqual_eq
        split: sum.splits DecodedTypeExpr.splits list.splits option.splits if_splits)

text \<open>
  The claim as stated fails: the struct \<open>Note\<close> of the example carries no table annotation,
  and a key of it is given a foreign-key target all the same.
\<close>

theorem foreign_key_without_table_annotation:
  "getForeignKeyRef sampleExternals sampleResolver
     (ref ''common.db'' ''DbKey'' [ref ''app'' ''Note'' []]) =
     Inr (Some \<lparr>fk_table = ''note'', fk_column = ''id''\<rparr>) \<and>
   \<not> isForeignKeyWrapper_spec sampleResolver
       (ref ''common.db'' ''DbKey'' [ref ''app'' ''Note'' []])"
  by code_simp




text \<open>
  C5. The loop that writes the extra SQL visits the keys of the array, not its elements:
  instead of a statement the output has its index. On the example, the table \<open>person\<close>
  carries one extra statement, and the output ends with the line \<open>0\<close>; the statement is
  nowhere in it.
\<close>

theorem extra_sql_keys_written:
  "trailer [] [sql] = [newline, ''0'' @ newline] \<and>
   generateSqlSchema sampleExternals sampleModules sampleResolver postgresDbProfile =
     Some (Inr sampleOutput) \<and>
   last sampleOutput = ''0'' @ newline \<and>
   ''create extension pgcrypto;'' @ newline \<notin> set sampleOutput"
proof -
  have "natToString 0 = ''0''"
    by code_simp
  then have "trailer [] [sql] = [newline, ''0'' @ newline]"
    by (simp add: trailer_def arrayKeys_def)
  moreover have "last sampleOutput = ''0'' @ newline"
    by code_simp
  moreover have "''create extension pgcrypto;'' @ newline \<notin> set sampleOutput"
    by code_simp
  ultimately show ?thesis using sample_run by blast
qed

text \<open>
  C6, as the code has it. When the expansion relation of the declaration graph is
  well-founded (no cyclic and no endless chain of aliases and newtypes), the reduction of
  the base type returns, and so does the mapper; on an engine with a call stack, it
  returns the same from some stack size on. The mapper does not detect a cycle: a step of
  the reduction depends on nothing but the type expression at hand, whatever has been
  expanded before, so on a set of type expressions that it reduces to one another the
  function never ends by itself (it has no result and no failure of its own), and the run
  takes the whole stack, however large, and ends with the engine's \<open>RangeError\<close>.
\<close>

theorem alias_reduction_termination:
  "(wf (aliasChain resolver) \<longrightarrow>
      (\<exists>res. getColumnType1 resolver typeExpr dbProfile = Some res) \<and>
      (\<exists>res. getColumnType ext resolver typeExpr dbProfile = Some res) \<and>
      (\<exists>n0. \<forall>n\<ge>n0.
         getColumnType1 resolver typeExpr dbProfile =
           Some (getColumnType1_stack n resolver typeExpr dbProfile) \<and>
         getColumnType1_stack n resolver typeExpr dbProfile \<noteq> Inl RangeError)) \<and>
   (recursesOn resolver typeExpr = Some texpr2 \<longrightarrow>
      getColumnType1_stack (Suc n) resolver typeExpr dbProfile =
        getColumnType1_stack n resolver texpr2 dbProfile) \<and>
   ((\<forall>t\<in>S. \<exists>t2\<in>S. recursesOn resolver t = Some t2) \<and> typeExpr \<in> S \<longrightarrow>
      getColumnType1 resolver typeExpr dbProfile = None \<and>
      (\<forall>n. getColumnType1_stack n resolver typeExpr dbProfile = Inl RangeError))"
proof (intro conjI impI)
  assume w: "wf (aliasChain resolver)"
  show "\<exists>res. getColumnType1 resolver typeExpr dbProfile = Some res"
    using w by (rule getColumnType1_returns)
  have r: "\<exists>res. rbind (getColumnType1 resolver t dbProfile) (\<lambda>s.
             rbind (lift (getForeignKeyRef ext resolver t)) (\<lambda>fk. ok (g s fk))) = Some res"
    for t and g :: "string \<Rightarrow> ForeignKey option \<Rightarrow> ColumnType"
    using getColumnType1_returns[OF w, of t dbProfile]
    by (auto simp: rbind_def lift_def ok_def split: sum.splits)
  show "\<exists>res. getColumnType ext resolver typeExpr dbProfile = Some res"
    unfolding getColumnType_def using r
    by (auto simp: throw_def split: sum.splits list.splits)
  show "\<exists>n0. \<forall>n\<ge>n0.
         getColumnType1 resolver typeExpr dbProfile =
           Some (getColumnType1_stack n resolver typeExpr dbProfile) \<and>
         getColumnType1_stack n resolver typeExpr dbProfile \<noteq> Inl RangeError"
    using w by (rule stack_enough)
next
  assume "recursesOn resolver typeExpr = Some texpr2"
  then show "getColumnType1_stack (Suc n) resolver typeExpr dbProfile =
        getColumnType1_stack n resolver texpr2 dbProfile"
    by (rule stack_recurses)
next
  assume c: "(\<forall>t\<in>S. \<exists>t2\<in>S. recursesOn resolver t = Some t2) \<and> typeExpr \<in> S"
  then show "getColumnType1 resolver typeExpr dbProfile = None"
    using closed_recursion_diverges by blast
  from c show "\<forall>n. getColumnType1_stack n resolver typeExpr dbProfile = Inl RangeError"
    using closed_recursion_exhausts_stack by blast
qed

text \<open>
  The witness: the example graph is acyclic, and the alias \<open>Email\<close> reduces to \<open>text\<close> with
  any stack of two frames or more; the alias \<open>A\<close> and the newtype \<open>B\<close> of the cyclic graph
  reduce to each other, and a run on \<open>B\<close> with a stack of a thousand frames ends with
  \<open>RangeError\<close>.
\<close>

theorem alias_reduction_termination_witness:
  "wf (aliasChain sampleResolver) \<and>
   (\<exists>res. getColumnType1 sampleResolver (ref ''app'' ''Email'' []) postgresDbProfile =
      Some res) \<and>
   (\<exists>res. getColumnType sampleExternals sampleResolver (ref ''app'' ''Email'' [])
      postgresDbProfile = Some res) \<and>
   (\<exists>n0. \<forall>n\<ge>n0.
      getColumnType1 sampleResolver (ref ''app'' ''Email'' []) postgresDbProfile =
        Some (getColumnType1_stack n sampleResolver (ref ''app'' ''Email'' [])
                postgresDbProfile) \<and>
      getColumnType1_stack n sampleResolver (ref ''app'' ''Email'' []) postgresDbProfile \<noteq>
        Inl RangeError) \<and>
   recursesOn cyclicResolver (ref ''loop'' ''B'' []) = Some (ref ''loop'' ''A'' []) \<and>
   getColumnType1_stack (Suc 999) cyclicResolver (ref ''loop'' ''B'' []) postgresDbProfile =
     getColumnType1_stack 999 cyclicResolver (ref ''loop'' ''A'' []) postgresDbProfile \<and>
   ref ''loop'' ''B'' [] \<in> {ref ''loop'' ''A'' [], ref ''loop'' ''B'' []} \<and>
   getColumnType1 cyclicResolver (ref ''loop'' ''B'' []) postgresDbProfile = None \<and>
   getColumnType1_stack 1000 cyclicResolver (ref ''loop'' ''B'' []) postgresDbProfile =
     Inl RangeError"
proof -
  note t1 = alias_reduction_termination[of sampleResolver "ref ''app'' ''Email'' []"
      postgresDbProfile sampleExternals undefined 0 "{}"]
  note t2 = alias_reduction_termination[of cyclicResolver "ref ''loop'' ''B'' []"
      postgresDbProfile sampleExternals "ref ''loop'' ''A'' []" 999
      "{ref ''loop'' ''A'' [], ref ''loop'' ''B'' []}"]
  have m: "ref ''loop'' ''B'' [] \<in> {ref ''loop'' ''A'' [], ref ''loop'' ''B'' []}"
    by simp
  have s: "recursesOn cyclicResolver (ref ''loop'' ''B'' []) = Some (ref ''loop'' ''A'' [])"
    by code_simp
  from t1 sample_acyclic have
    "(\<exists>res. getColumnType1 sampleResolver (ref ''app'' ''Email'' []) postgresDbProfile =
        Some res) \<and>
     (\<exists>res. getColumnType sampleExternals sampleResolver (ref ''app'' ''Email'' [])
        postgresDbProfile = Some res) \<and>
     (\<exists>n0. \<forall>n\<ge>n0.
        getColumnType1 sampleResolver (ref ''app'' ''Email'' []) postgresDbProfile =
          Some (getColumnType1_stack n sampleResolver (ref ''app'' ''Email'' [])
                  postgresDbProfile) \<and>
        getColumnType1_stack n sampleResolver (ref ''app'' ''Email'' []) postgresDbProfile \<noteq>
          Inl RangeError)"
    by blast
  moreover from t2 s have
    "getColumnType1_stack (Suc 999) cyclicResolver (ref ''loop'' ''B'' []) postgresDbProfile =
     getColumnType1_stack 999 cyclicResolver (ref ''loop'' ''A'' []) postgresDbProfile"
    by blast
  moreover from t2 cyclic_closed m have
    "getColumnType1 cyclicResolver (ref ''loop'' ''B'' []) postgresDbProfile = None \<and>
     (\<forall>n. getColumnType1_stack n cyclicResolver (ref ''loop'' ''B'' []) postgresDbProfile =
        Inl RangeError)"
    by blast
  ultimately show ?thesis using sample_acyclic m s by blast
qed

text \<open>
  The claim as stated fails on the cyclic graph, which has two declarations. The run on
  the alias \<open>A\<close> is called on \<open>A\<close>, on \<open>B\<close>, and then on \<open>A\<close> and on \<open>B\<close> again: the revisit is
  not detected. With a stack of four frames the run ends with the engine's \<open>RangeError\<close>
  at the fifth call, and with a stack of sixty-four frames at the sixty-fifth: what ends
  the run is the size of the stack, not a bound from the graph.
\<close>

theorem cyclic_alias_not_detected:
  "expansionChain 4 cyclicResolver (ref ''loop'' ''A'' []) =
     [ref ''loop'' ''A'' [], ref ''loop'' ''B'' [], ref ''loop'' ''A'' [],
      ref ''loop'' ''B'' []] \<and>
   \<not> noRevisit_spec (expansionChain 4 cyclicResolver (ref ''loop'' ''A'' [])) \<and>
   getColumnType1_stack 4 cyclicResolver (ref ''loop'' ''A'' []) postgresDbProfile =
     Inl RangeError \<and>
   length (expansionChain 64 cyclicResolver (ref ''loop'' ''A'' [])) = 64 \<and>
   getColumnType1_stack 64 cyclicResolver (ref ''loop'' ''A'' []) postgresDbProfile =
     Inl RangeError"
  by code_simp

text \<open>
  C7. A primitive kind that the table of the selected profile does not list is mapped to
  the default column type of the profile, \<open>json\<close> for the postgres profile, \<open>jsonb\<close> for
  the second postgres profile and \<open>nvarchar(max)\<close> for the mssql profile; the mapper
  returns it and raises nothing.
\<close>

theorem unmapped_primitive_default:
  assumes "decodeTypeExpr typeExpr = Inr (DPrimitive ptype)"
  shows "(ptype \<notin> set postgresPrimitives \<longrightarrow>
            primColumnType postgresDbProfile ptype = ''json'' \<and>
            getColumnType1 resolver typeExpr postgresDbProfile = Some (Inr ''json'') \<and>
            primColumnType postgres2DbProfile ptype = ''jsonb'' \<and>
            getColumnType1 resolver typeExpr postgres2DbProfile = Some (Inr ''jsonb'')) \<and>
         (ptype \<notin> set mssql2Primitives \<longrightarrow>
            primColumnType mssql2DbProfile ptype = ''nvarchar(max)'' \<and>
            getColumnType1 resolver typeExpr mssql2DbProfile = Some (Inr ''nvarchar(max)''))"
proof -
  have r: "getColumnType1 resolver typeExpr p = Some (Inr (primColumnType p ptype))" for p
    using assms by (subst getColumnType1.simps) simp
  show ?thesis
    unfolding r
    by (simp add: postgresPrimitives_def mssql2Primitives_def postgresDbProfile_def
          postgres2DbProfile_def mssql2DbProfile_def postgresPrim_def postgres2Prim_def
          mssql2Prim_def)
qed

theorem unmapped_primitive_default_witness:
  "''Vector'' \<notin> set postgresPrimitives \<and> ''Vector'' \<notin> set mssql2Primitives \<and>
   getColumnType1 sampleResolver (TypeExpr (Primitive ''Vector'') [prim ''String''])
     postgresDbProfile = Some (Inr ''json'') \<and>
   getColumnType1 sampleResolver (TypeExpr (Primitive ''Vector'') [prim ''String''])
     postgres2DbProfile = Some (Inr ''jsonb'') \<and>
   getColumnType1 sampleResolver (TypeExpr (Primitive ''Vector'') [prim ''String''])
     mssql2DbProfile = Some (Inr ''nvarchar(max)'')"
proof -
  have d: "decodeTypeExpr (TypeExpr (Primitive ''Vector'') [prim ''String'']) =
      Inr (DPrimitive ''Vector'')"
    by simp
  have n: "''Vector'' \<notin> set postgresPrimitives" "''Vector'' \<notin> set mssql2Primitives"
    by (simp_all add: postgresPrimitives_def mssql2Primitives_def)
  from unmapped_primitive_default[OF d, of sampleResolver] n show ?thesis
    by blast
qed

text \<open>
  C8, as the code has it. The \<^verbatim>\<open>create table\<close> statements of the output are those of the
  tables found, in the order of the table names, which is ascending; it is strictly
  ascending when no two tables have the same name. The sequence of the names does not
  depend on the order in which the declarations are visited.
\<close>

theorem tables_in_name_order:
  assumes "generateSqlSchema ext modules resolver dbProfile = Some (Inr out)"
  shows "createTableStatements out =
           map (\<lambda>t. ''create table '' @ dbt_name t @ ''('' @ newline)
             (findDbTables ext modules) \<and>
         sorted (map dbt_name (findDbTables ext modules)) \<and>
         (distinct (map dbt_name (findDbTables ext modules)) \<longrightarrow>
            sorted_wrt (<) (map dbt_name (findDbTables ext modules))) \<and>
         (mset (forEachDecl modules') = mset (forEachDecl modules) \<longrightarrow>
            map dbt_name (findDbTables ext modules') = map dbt_name (findDbTables ext modules))"
proof -
  from generate_shape[OF assms] obtain blocks groups and x :: "string list" where
    out: "out = header (findDbTables ext modules) @ concat blocks @
                 (if concat groups = [] then [] else [newline]) @
                 map (\<lambda>c. c @ newline) (concat groups) @
                 (if x = [] then [] else [newline]) @
                 map (\<lambda>sql. sql @ newline) (arrayKeys x)" and
    b: "list_all2 tableBlock (findDbTables ext modules) blocks" and
    g: "list_all2 (tableConstraints ext) (findDbTables ext modules) groups"
    by blast
  have nl: "\<not> isCreateTable newline"
    by (simp add: isCreateTable_def newline_def)
  have "createTableStatements out =
           map (\<lambda>t. ''create table '' @ dbt_name t @ ''('' @ newline) (findDbTables ext modules)"
    unfolding createTableStatements_def out filter_append
    by (simp add: header_no_create blocks_create[OF b] groups_no_create[OF g]
          arrayKeys_no_create nl)
  then show ?thesis
    using findDbTables_sorted[of ext modules] findDbTables_names_perm[of modules' modules ext]
    by (simp add: strict_sorted_iff)
qed

text \<open>
  The witness: the example, and the example with its modules in another order.
\<close>

theorem tables_in_name_order_witness:
  "createTableStatements sampleOutput =
     map (\<lambda>t. ''create table '' @ dbt_name t @ ''('' @ newline)
       (findDbTables sampleExternals sampleModules) \<and>
   sorted_wrt (<) (map dbt_name (findDbTables sampleExternals sampleModules)) \<and>
   map dbt_name (findDbTables sampleExternals ([appModule] @ commonModules)) =
     map dbt_name (findDbTables sampleExternals sampleModules) \<and>
   map dbt_name (findDbTables sampleExternals sampleModules) = [''person'', ''pet'']"
proof -
  have d: "distinct (map dbt_name (findDbTables sampleExternals sampleModules))"
    by code_simp
  have m: "mset (forEachDecl ([appModule] @ commonModules)) = mset (forEachDecl sampleModules)"
    by (simp add: forEachDecl_def sampleModules_def)
  have n: "map dbt_name (findDbTables sampleExternals sampleModules) = [''person'', ''pet'']"
    by code_simp
  from tables_in_name_order[OF sample_run, of "[appModule] @ commonModules"] d m n
  show ?thesis by blast
qed

text \<open>
  The claim as stated fails when two tables have the same name: the two modules of the
  example \<open>twinModules\<close> each declare the table \<open>user\<close>, and the output has the statement
  \<^verbatim>\<open>create table user(\<close> twice, which is not a strictly ascending order.
\<close>

theorem twin_tables_not_strictly_ascending:
  "map dbt_name (findDbTables sampleExternals twinModules) = [''user'', ''user''] \<and>
   \<not> sorted_wrt (<) (map dbt_name (findDbTables sampleExternals twinModules)) \<and>
   map_option (map_sum id createTableStatements)
     (generateSqlSchema sampleExternals twinModules (resolverOf twinModules)
        postgresDbProfile) =
     Some (Inr [''create table user(\<newline>'', ''create table user(\<newline>''])"
  by code_simp

text \<open>
  C9. A reference to one of the temporal declarations, when it resolves, is mapped to a
  fixed column type whatever the declaration is and whatever the profile:
  \<open>common.Instant\<close> to \<open>timestamp\<close>, \<open>common.LocalDate\<close> to \<open>date\<close> and
  \<open>common.LocalDateTime\<close> to \<open>timestamp\<close>.
\<close>

theorem temporal_column_types:
  assumes "decodeTypeExpr typeExpr = Inr (DReference sn ps)" and "resolver sn = Some sdecl"
  shows "(sn = INSTANT \<longrightarrow>
            getColumnType1 resolver typeExpr dbProfile = Some (Inr ''timestamp'')) \<and>
         (sn = LOCAL_DATE \<longrightarrow>
            getColumnType1 resolver typeExpr dbProfile = Some (Inr ''date'')) \<and>
         (sn = LOCAL_DATETIME \<longrightarrow>
            getColumnType1 resolver typeExpr dbProfile = Some (Inr ''timestamp''))"
proof -
  note r = getColumnType1_reference[where resolver = resolver and sn = sn, OF assms]
  show ?thesis
    unfolding r by (simp add: name_defs)
qed

text \<open>
  The witness: in the example \<open>common.Instant\<close> is a newtype of Int64, which alone would
  give \<open>bigint\<close>, and the two other declarations are newtypes of String.
\<close>

theorem temporal_column_types_witness:
  "getColumnType1 sampleResolver (ref ''common'' ''Instant'' []) mssql2DbProfile =
     Some (Inr ''timestamp'') \<and>
   getColumnType1 sampleResolver (ref ''common'' ''LocalDate'' []) mssql2DbProfile =
     Some (Inr ''date'') \<and>
   getColumnType1 sampleResolver (ref ''common'' ''LocalDateTime'' []) mssql2DbProfile =
     Some (Inr ''timestamp'')"
proof -
  have d: "decodeTypeExpr (ref ''common'' ''Instant'' []) = Inr (DReference INSTANT [])"
    "decodeTypeExpr (ref ''common'' ''LocalDate'' []) = Inr (DReference LOCAL_DATE [])"
    "decodeTypeExpr (ref ''common'' ''LocalDateTime'' []) = Inr (DReference LOCAL_DATETIME [])"
    by code_simp+
  obtain s1 s2 s3 where
    r: "sampleResolver INSTANT = Some s1" "sampleResolver LOCAL_DATE = Some s2"
       "sampleResolver LOCAL_DATETIME = Some s3"
    by (simp add: sampleResolver_def resolverOf_def forEachDecl_def sampleModules_def
          commonModules_def name_defs)
  from temporal_column_types[where resolver = sampleResolver and sn = INSTANT,
      OF d(1) r(1), of mssql2DbProfile]
    temporal_column_types[where resolver = sampleResolver and sn = LOCAL_DATE,
      OF d(2) r(2), of mssql2DbProfile]
    temporal_column_types[where resolver = sampleResolver and sn = LOCAL_DATETIME,
      OF d(3) r(3), of mssql2DbProfile]
  show ?thesis by blast
qed

text \<open>
  C10. Only a struct declaration that carries the table annotation becomes a table. A
  declaration is a table exactly when it is a struct and its table annotation is present
  and not \<open>null\<close>; so a union, a newtype or a type alias is no table, with or without the
  annotation, and a struct without the annotation is none either. The tables found are
  exactly the annotated structs among the declarations visited, every one of them a
  struct that carries the annotation; and the tables found and the whole output are the
  same as for the modules restricted to their structs.
\<close>

theorem only_structs_are_tables:
  "(dbTableOf ext scopedDecl \<noteq> None \<longleftrightarrow>
      isStruct (sd_decl scopedDecl) \<and> tableAnnotated scopedDecl) \<and>
   (tableAnnotated scopedDecl \<longrightarrow> carriesTableAnnotation scopedDecl) \<and>
   (\<not> isStruct (sd_decl scopedDecl) \<longrightarrow> dbTableOf ext scopedDecl = None) \<and>
   (\<not> carriesTableAnnotation scopedDecl \<longrightarrow> dbTableOf ext scopedDecl = None) \<and>
   set (map dbt_scopedDecl (findDbTables ext modules)) =
     {sd \<in> set (forEachDecl modules). isStruct (sd_decl sd) \<and> tableAnnotated sd} \<and>
   list_all (\<lambda>t. isStruct (sd_decl (dbt_scopedDecl t)) \<and>
                 carriesTableAnnotation (dbt_scopedDecl t) \<and>
                 dbTableOf ext (dbt_scopedDecl t) = Some t)
     (findDbTables ext modules) \<and>
   findDbTables ext (map structsOnly modules) = findDbTables ext modules \<and>
   generateSqlSchema ext (map structsOnly modules) resolver dbProfile =
     generateSqlSchema ext modules resolver dbProfile"
proof -
  have a: "tableAnnotated sd \<Longrightarrow> carriesTableAnnotation sd" for sd
    by (auto simp: tableAnnotated_def carriesTableAnnotation_def split: option.splits)
  have "isStruct (sd_decl (dbt_scopedDecl t)) \<and> carriesTableAnnotation (dbt_scopedDecl t) \<and>
        dbTableOf ext (dbt_scopedDecl t) = Some t"
    if "t \<in> set (findDbTables ext modules)" for t
  proof -
    from that obtain sd where t: "dbTableOf ext sd = Some t"
      by (auto simp: findDbTables_def List.map_filter_def)
    from dbTableOf_struct[OF t] have "dbt_scopedDecl t = sd" by simp
    with t dbTableOf_iff[of ext sd] a[of sd] show ?thesis by simp
  qed
  then have l: "list_all (\<lambda>t. isStruct (sd_decl (dbt_scopedDecl t)) \<and>
                 carriesTableAnnotation (dbt_scopedDecl t) \<and>
                 dbTableOf ext (dbt_scopedDecl t) = Some t)
     (findDbTables ext modules)"
    by (simp add: list_all_iff)
  have i: "dbTableOf ext scopedDecl \<noteq> None \<longleftrightarrow>
      isStruct (sd_decl scopedDecl) \<and> tableAnnotated scopedDecl"
    by (rule dbTableOf_iff)
  have g: "generateSqlSchema ext (map structsOnly modules) resolver dbProfile =
     generateSqlSchema ext modules resolver dbProfile"
    by (simp add: generateSqlSchema_def findDbTables_structsOnly)
  from i a[of scopedDecl] have
    "tableAnnotated scopedDecl \<longrightarrow> carriesTableAnnotation scopedDecl"
    "\<not> isStruct (sd_decl scopedDecl) \<longrightarrow> dbTableOf ext scopedDecl = None"
    "\<not> carriesTableAnnotation scopedDecl \<longrightarrow> dbTableOf ext scopedDecl = None"
    by blast+
  with i l g findDbTables_scopedDecls[of ext modules] findDbTables_structsOnly[of ext modules]
  show ?thesis by (intro conjI) assumption+
qed

text \<open>
  The witness: of the declarations of the example, the union \<open>Colour\<close> carries the table
  annotation and is no table; the struct \<open>Note\<close> carries none and is no table; the struct
  \<open>Person\<close> carries it and is a table.
\<close>

theorem only_structs_are_tables_witness:
  "\<not> isStruct (sd_decl \<lparr>sd_moduleName = ''app'', sd_decl = colour\<rparr>) \<and>
   carriesTableAnnotation \<lparr>sd_moduleName = ''app'', sd_decl = colour\<rparr> \<and>
   dbTableOf sampleExternals \<lparr>sd_moduleName = ''app'', sd_decl = colour\<rparr> = None \<and>
   isStruct (sd_decl \<lparr>sd_moduleName = ''app'', sd_decl = noteStruct\<rparr>) \<and>
   \<not> carriesTableAnnotation \<lparr>sd_moduleName = ''app'', sd_decl = noteStruct\<rparr> \<and>
   dbTableOf sampleExternals \<lparr>sd_moduleName = ''app'', sd_decl = noteStruct\<rparr> = None \<and>
   isStruct (sd_decl \<lparr>sd_moduleName = ''app'', sd_decl = person\<rparr>) \<and>
   tableAnnotated \<lparr>sd_moduleName = ''app'', sd_decl = person\<rparr> \<and>
   carriesTableAnnotation \<lparr>sd_moduleName = ''app'', sd_decl = person\<rparr> \<and>
   dbTableOf sampleExternals \<lparr>sd_moduleName = ''app'', sd_decl = person\<rparr> \<noteq> None"
proof -
  let ?c = "\<lparr>sd_moduleName = ''app'', sd_decl = colour\<rparr>"
  let ?n = "\<lparr>sd_moduleName = ''app'', sd_decl = noteStruct\<rparr>"
  let ?p = "\<lparr>sd_moduleName = ''app'', sd_decl = person\<rparr>"
  have c: "\<not> isStruct (sd_decl ?c)" "carriesTableAnnotation ?c"
    and n: "isStruct (sd_decl ?n)" "\<not> carriesTableAnnotation ?n"
    and p: "isStruct (sd_decl ?p)" "tableAnnotated ?p"
    by code_simp+
  from only_structs_are_tables[of sampleExternals ?c] c
  have 1: "dbTableOf sampleExternals ?c = None" by blast
  from only_structs_are_tables[of sampleExternals ?n] n
  have 2: "dbTableOf sampleExternals ?n = None" by blast
  from only_structs_are_tables[of sampleExternals ?p] p
  have 3: "carriesTableAnnotation ?p \<and> dbTableOf sampleExternals ?p \<noteq> None" by blast
  from c n p 1 2 3 show ?thesis by blast
qed

end
